theory Spec2Isabelle
  imports Main
begin

section \<open>Python values, exceptions and strings\<close>

text \<open>
  The module under verification is \<^verbatim>\<open>fugue/_utils/io.py\<close>. Every exception the code can
  raise is a value of \<open>error\<close>, named after the Python class, with the message text.
  The design document speaks of UnsupportedFormat and UnsupportedOption (both are
  \<open>NotImplementedError\<close> in the code), InvalidPath (the \<open>AssertionError\<close> of
  \<^verbatim>\<open>assert_or_throw\<close> with a message string), MissingColumns (\<open>InvalidOperationError\<close>)
  and AlreadyExists (\<open>FileExistsError\<close>).
\<close>

datatype error =
    NotImplementedError string
  | AssertionError string
  | FileExistsError string
  | InvalidOperationError string
  | ValueError string
  | KeyError string
  | TypeError string
  | UnboundLocalError string
  | RecursionError
  | PyException string
  | IOError string

text \<open>Strings are ASCII character lists; \<open>lower\<close> is \<^verbatim>\<open>str.lower\<close> on ASCII.\<close>

definition ascii_uppercase :: string where
  "ascii_uppercase = ''ABCDEFGHIJKLMNOPQRSTUVWXYZ''"

definition ascii_lowercase :: string where
  "ascii_lowercase = ''abcdefghijklmnopqrstuvwxyz''"

definition lower_char :: "char \<Rightarrow> char" where
  "lower_char c = (case map_of (zip ascii_uppercase ascii_lowercase) c of
                     Some d \<Rightarrow> d | None \<Rightarrow> c)"

definition lower :: "string \<Rightarrow> string" where
  "lower s = map lower_char s"

definition endswith :: "string \<Rightarrow> string \<Rightarrow> bool" where
  "endswith s k = (length k \<le> length s \<and> drop (length s - length k) s = k)"

definition startswith :: "string \<Rightarrow> string \<Rightarrow> bool" where
  "startswith s k = (take (length k) s = k)"

text \<open>\<^verbatim>\<open>s.split(c)\<close> for a one-character separator: never empty.\<close>

fun split_on :: "char \<Rightarrow> string \<Rightarrow> string list" where
  "split_on c [] = [[]]"
| "split_on c (x # xs) =
     (if x = c then [] # split_on c xs
      else (case split_on c xs of [] \<Rightarrow> [[x]] | w # ws \<Rightarrow> (x # w) # ws))"

text \<open>\<^verbatim>\<open>s.find(c)\<close>: the first index of \<open>c\<close>, \<open>None\<close> for Python's \<open>-1\<close>.\<close>

fun find_char :: "char \<Rightarrow> string \<Rightarrow> nat option" where
  "find_char c [] = None"
| "find_char c (x # xs) = (if x = c then Some 0 else map_option Suc (find_char c xs))"

section \<open>The standard library functions the parser calls\<close>

subsection \<open>\<^verbatim>\<open>urllib.parse.urlparse\<close>\<close>

text \<open>
  The result of \<^verbatim>\<open>urlparse\<close> is a six-field tuple. The model follows CPython's
  \<^verbatim>\<open>urlsplit\<close> and \<^verbatim>\<open>urlparse\<close> on ASCII input: a scheme is split off at the first colon
  when everything before it is made of scheme characters and starts with a letter; a
  network location follows \<^verbatim>\<open>//\<close>; unbalanced square brackets in it raise
  \<open>ValueError\<close>; the fragment is cut at the first \<^verbatim>\<open>#\<close>, then the query at the first
  \<^verbatim>\<open>?\<close>; parameters are cut at \<^verbatim>\<open>;\<close> in the last segment for the schemes that use them.
  Left out: the checks on non-ASCII network locations and the stripping of leading
  control characters that recent releases added.
\<close>

record ParseResult =
  uri_scheme :: string
  uri_netloc :: string
  uri_path :: string
  uri_params :: string
  uri_query :: string
  uri_fragment :: string

definition scheme_chars :: string where
  "scheme_chars = ascii_lowercase @ ascii_uppercase @ ''0123456789'' @ ''+-.''"

definition uses_params :: "string list" where
  "uses_params = ['''', ''ftp'', ''hdl'', ''prospero'', ''http'', ''imap'', ''https'',
     ''shttp'', ''rtsp'', ''rtspu'', ''sip'', ''sips'', ''mms'', ''sftp'', ''tel'']"

definition uses_netloc :: "string list" where
  "uses_netloc = ['''', ''ftp'', ''http'', ''gopher'', ''nntp'', ''telnet'', ''imap'',
     ''wais'', ''file'', ''mms'', ''https'', ''shttp'', ''snews'', ''prospero'', ''rtsp'',
     ''rtspu'', ''rsync'', ''svn'', ''svn+ssh'', ''sftp'', ''nfs'', ''git'', ''git+ssh'',
     ''ws'', ''wss'']"

definition split_scheme :: "string \<Rightarrow> string \<times> string" where
  "split_scheme url =
     (case find_char CHR '':'' url of
        None \<Rightarrow> ('''', url)
      | Some i \<Rightarrow>
          if 0 < i \<and> hd url \<in> set (ascii_lowercase @ ascii_uppercase)
               \<and> list_all (\<lambda>c. c \<in> set scheme_chars) (take i url)
          then (lower (take i url), drop (Suc i) url)
          else ('''', url))"

definition splitnetloc :: "string \<Rightarrow> string \<times> string" where
  "splitnetloc url =
     (let rest = drop 2 url;
          stop = (\<lambda>c. c = CHR ''/'' \<or> c = CHR ''?'' \<or> c = CHR ''#'')
      in (takeWhile (\<lambda>c. \<not> stop c) rest, dropWhile (\<lambda>c. \<not> stop c) rest))"

text \<open>\<^verbatim>\<open>url.split(c, 1)\<close> when \<open>c\<close> occurs in \<open>url\<close>; otherwise the pair \<open>(url, '')\<close>.\<close>

definition split_once :: "char \<Rightarrow> string \<Rightarrow> string \<times> string" where
  "split_once c url = (takeWhile (\<lambda>x. x \<noteq> c) url, drop 1 (dropWhile (\<lambda>x. x \<noteq> c) url))"

definition urlsplit :: "string \<Rightarrow> error + (string \<times> string \<times> string \<times> string \<times> string)" where
  "urlsplit url0 =
     (let (scheme, url1) = split_scheme url0;
          (netloc, url2) = (if take 2 url1 = ''//'' then splitnetloc url1 else ('''', url1))
      in if (CHR ''['' \<in> set netloc \<and> CHR '']'' \<notin> set netloc)
            \<or> (CHR '']'' \<in> set netloc \<and> CHR ''['' \<notin> set netloc)
         then Inl (ValueError ''Invalid IPv6 URL'')
         else
           (let (url3, fragment) = split_once CHR ''#'' url2;
                (url4, query) = split_once CHR ''?'' url3
            in Inr (scheme, netloc, url4, query, fragment)))"

definition splitparams :: "string \<Rightarrow> string \<times> string" where
  "splitparams url =
     (if CHR ''/'' \<in> set url
      then (let seg = rev (takeWhile (\<lambda>c. c \<noteq> CHR ''/'') (rev url));
                dir = take (length url - length seg) url
            in if CHR '';'' \<in> set seg
               then (dir @ fst (split_once CHR '';'' seg), snd (split_once CHR '';'' seg))
               else (url, ''''))
      else split_once CHR '';'' url)"

definition urlparse :: "string \<Rightarrow> error + ParseResult" where
  "urlparse url =
     (case urlsplit url of
        Inl e \<Rightarrow> Inl e
      | Inr (scheme, netloc, p, query, fragment) \<Rightarrow>
          (let (p', params) = (if scheme \<in> set uses_params \<and> CHR '';'' \<in> set p
                               then splitparams p else (p, ''''))
           in Inr \<lparr>uri_scheme = scheme, uri_netloc = netloc, uri_path = p',
                    uri_params = params, uri_query = query, uri_fragment = fragment\<rparr>))"

text \<open>\<^verbatim>\<open>ParseResult.geturl()\<close>, that is \<^verbatim>\<open>urlunparse\<close>.\<close>

definition geturl :: "ParseResult \<Rightarrow> string" where
  "geturl u =
     (let url0 = (if uri_params u \<noteq> '''' then uri_path u @ '';'' @ uri_params u else uri_path u);
          url1 = (if uri_netloc u \<noteq> ''''
                     \<or> (uri_scheme u \<noteq> '''' \<and> uri_scheme u \<in> set uses_netloc
                         \<and> take 2 url0 \<noteq> ''//'')
                  then ''//'' @ uri_netloc u
                       @ (if url0 \<noteq> '''' \<and> take 1 url0 \<noteq> ''/'' then ''/'' @ url0 else url0)
                  else url0);
          url2 = (if uri_scheme u \<noteq> '''' then uri_scheme u @ '':'' @ url1 else url1);
          url3 = (if uri_query u \<noteq> '''' then url2 @ ''?'' @ uri_query u else url2)
      in if uri_fragment u \<noteq> '''' then url3 @ ''#'' @ uri_fragment u else url3)"

text \<open>The parse of a plain relative path: everything is path.\<close>

definition plain_uri :: "string \<Rightarrow> ParseResult" where
  "plain_uri p = \<lparr>uri_scheme = '''', uri_netloc = '''', uri_path = p, uri_params = '''',
                  uri_query = '''', uri_fragment = ''''\<rparr>"

subsection \<open>\<^verbatim>\<open>os.path\<close> (POSIX) and \<^verbatim>\<open>pathlib\<close>\<close>

definition os_path_join :: "string \<Rightarrow> string \<Rightarrow> string" where
  "os_path_join a b =
     (if startswith b ''/'' then b
      else if a = '''' \<or> endswith a ''/'' then a @ b
      else a @ ''/'' @ b)"

definition os_path_basename :: "string \<Rightarrow> string" where
  "os_path_basename p = rev (takeWhile (\<lambda>c. c \<noteq> CHR ''/'') (rev p))"

text \<open>
  \<^verbatim>\<open>PurePath.name\<close>: the last component, where empty components and single dots do
  not count; \<^verbatim>\<open>PurePath.suffixes\<close>: none when the name ends with a dot, otherwise the
  dotted pieces after the first one of the name without its leading dots.
\<close>

definition pathlib_name :: "string \<Rightarrow> string" where
  "pathlib_name p =
     (case filter (\<lambda>x. x \<noteq> '''' \<and> x \<noteq> ''.'') (split_on CHR ''/'' p) of
        [] \<Rightarrow> ''''
      | x # xs \<Rightarrow> last (x # xs))"

definition pathlib_suffixes :: "string \<Rightarrow> string list" where
  "pathlib_suffixes p =
     (let name = pathlib_name p in
      if endswith name ''.'' then []
      else map (\<lambda>s. CHR ''.'' # s)
             (tl (split_on CHR ''.'' (dropWhile (\<lambda>c. c = CHR ''.'') name))))"

section \<open>The path parser\<close>

text \<open>
  The scan of \<^verbatim>\<open>FileParser.__init__\<close>: \<open>i\<close> is the index of the character at the head of
  the remaining string, \<open>last_i\<close> (the source's \<^verbatim>\<open>last\<close>) the index of the last separator
  seen, initially the length of the path; the loop stops at the first \<^verbatim>\<open>*\<close> or \<^verbatim>\<open>?\<close>.
\<close>

fun scan_glob :: "string \<Rightarrow> nat \<Rightarrow> nat \<Rightarrow> nat \<times> bool" where
  "scan_glob [] i last_i = (last_i, False)"
| "scan_glob (c # cs) i last_i =
     (let last_i' = (if c = CHR ''/'' \<or> c = CHR 0x5C then i else last_i)
      in if c = CHR ''*'' \<or> c = CHR ''?'' then (last_i', True)
         else scan_glob cs (Suc i) last_i')"

record FileParser =
  attr_uri :: ParseResult
  attr_glob_pattern :: string
  attr_path :: string
  attr_format :: string

definition FORMAT_MAP :: "(string \<times> string) list" where
  "FORMAT_MAP =
     [(''.csv'', ''csv''), (''.csv.gz'', ''csv''), (''.parquet'', ''parquet''),
      (''.json'', ''json''), (''.json.gz'', ''json''), (''.avro'', ''avro''),
      (''.avro.gz'', ''avro'')]"

text \<open>The property \<^verbatim>\<open>suffix\<close>, as a function of the stored path.\<close>

definition suffix_of_path :: "string \<Rightarrow> string" where
  "suffix_of_path p = concat (pathlib_suffixes (lower p))"

text \<open>
  Lines 19 to 34: the URI, the glob pattern and the path, or the \<open>ValueError\<close> of
  \<^verbatim>\<open>urlparse\<close>.
\<close>

definition parse_location :: "string \<Rightarrow> error + (ParseResult \<times> string \<times> string)" where
  "parse_location path =
     (let (last_i, has_glob) = scan_glob path 0 (length path) in
      if \<not> has_glob then
        (case urlparse path of
           Inl e \<Rightarrow> Inl e
         | Inr u \<Rightarrow> Inr (u, '''', uri_path u))
      else
        (case urlparse (take last_i path) of
           Inl e \<Rightarrow> Inl e
         | Inr u \<Rightarrow>
             (let g = drop (last_i + 1) path
              in Inr (u, g, os_path_join (uri_path u) g))))"

text \<open>Lines 36 to 47: the format, from the hint or from the suffix.\<close>

definition resolve_format :: "string \<Rightarrow> string option \<Rightarrow> error + string" where
  "resolve_format p format_hint =
     (if format_hint = None \<or> format_hint = Some '''' then
        (case find (\<lambda>kv. endswith (suffix_of_path p) (fst kv)) FORMAT_MAP of
           Some kv \<Rightarrow> Inr (snd kv)
         | None \<Rightarrow> Inl (NotImplementedError (suffix_of_path p @ '' is not supported'')))
      else if the format_hint \<in> set (map snd FORMAT_MAP) then Inr (the format_hint)
      else Inl (NotImplementedError (the format_hint @ '' is not supported'')))"

definition FileParser_init :: "string \<Rightarrow> string option \<Rightarrow> error + FileParser" where
  "FileParser_init path format_hint =
     (case parse_location path of
        Inl e \<Rightarrow> Inl e
      | Inr (u, g, p) \<Rightarrow>
          (case resolve_format p format_hint of
             Inl e \<Rightarrow> Inl e
           | Inr f \<Rightarrow> Inr \<lparr>attr_uri = u, attr_glob_pattern = g, attr_path = p,
                           attr_format = f\<rparr>))"

definition glob_pattern :: "FileParser \<Rightarrow> string" where
  "glob_pattern self = attr_glob_pattern self"

definition uri :: "FileParser \<Rightarrow> string" where
  "uri self = geturl (attr_uri self)"

definition scheme :: "FileParser \<Rightarrow> string" where
  "scheme self = uri_scheme (attr_uri self)"

definition path :: "FileParser \<Rightarrow> string" where
  "path self = attr_path self"

definition suffix :: "FileParser \<Rightarrow> string" where
  "suffix self = suffix_of_path (path self)"

definition file_format :: "FileParser \<Rightarrow> string" where
  "file_format self = attr_format self"

definition assert_no_glob :: "FileParser \<Rightarrow> error + FileParser" where
  "assert_no_glob self =
     (if glob_pattern self = '''' then Inr self
      else Inl (AssertionError (path self @ '' has glob pattern'')))"

section \<open>Python objects passed as options\<close>

text \<open>
  The values that travel in \<^verbatim>\<open>columns\<close> and \<^verbatim>\<open>**kwargs\<close>: \<open>None\<close>, booleans, integers,
  strings, lists, a structured schema (ordered name and type pairs), a class object such
  as \<^verbatim>\<open>object\<close>, and the missing cell of a frame.
\<close>

type_synonym schema = "(string \<times> string) list"

datatype pyval =
    PNone
  | PBool bool
  | PInt int
  | PStr string
  | PList "pyval list"
  | PSchema schema
  | PType string
  | PNaN

type_synonym kwargs = "string \<rightharpoonup> pyval"

function digits :: "nat \<Rightarrow> string" where
  "digits n = (if n < 10 then [''0123456789'' ! n]
               else digits (n div 10) @ [''0123456789'' ! (n mod 10)])"
  by pat_completeness auto
termination
  by (relation "measure id") auto

fun intercalate :: "string \<Rightarrow> string list \<Rightarrow> string" where
  "intercalate sep [] = []"
| "intercalate sep [x] = x"
| "intercalate sep (x # y # zs) = x @ sep @ intercalate sep (y # zs)"

text \<open>\<^verbatim>\<open>str(v)\<close>; inside a list a string shows in quotes (escapes are not modelled).\<close>

fun py_str :: "pyval \<Rightarrow> string" where
  "py_str PNone = ''None''"
| "py_str (PBool b) = (if b then ''True'' else ''False'')"
| "py_str (PInt i) = (if i < 0 then ''-'' @ digits (nat (- i)) else digits (nat i))"
| "py_str (PStr s) = s"
| "py_str (PList xs) =
     ''['' @ intercalate '', ''
        (map (\<lambda>x. case x of PStr t \<Rightarrow> [CHR 0x27] @ t @ [CHR 0x27] | _ \<Rightarrow> py_str x) xs) @ '']''"
| "py_str (PSchema sch) = intercalate '','' (map (\<lambda>nt. fst nt @ '':'' @ snd nt) sch)"
| "py_str (PType n) = ''<class '' @ [CHR 0x27] @ n @ [CHR 0x27] @ ''>''"
| "py_str PNaN = ''nan''"

text \<open>Truth value testing, as \<^verbatim>\<open>if v:\<close> does.\<close>

fun truthy :: "pyval \<Rightarrow> bool" where
  "truthy PNone = False"
| "truthy (PBool b) = b"
| "truthy (PInt i) = (i \<noteq> 0)"
| "truthy (PStr s) = (s \<noteq> [])"
| "truthy (PList xs) = (xs \<noteq> [])"
| "truthy (PSchema sch) = (sch \<noteq> [])"
| "truthy (PType n) = True"
| "truthy PNaN = True"

fun contains_str :: "string \<Rightarrow> string \<Rightarrow> bool" where
  "contains_str sub [] = (sub = [])"
| "contains_str sub (x # xs) = (startswith (x # xs) sub \<or> contains_str sub xs)"

text \<open>
  \<^verbatim>\<open>k in v\<close> for a string \<open>k\<close>: substring of a string, element of a list, name of a
  schema; a \<open>TypeError\<close> on a value that is not a container.
\<close>

fun py_contains :: "string \<Rightarrow> pyval \<Rightarrow> error + bool" where
  "py_contains k (PStr s) = Inr (contains_str k s)"
| "py_contains k (PList xs) = Inr (PStr k \<in> set xs)"
| "py_contains k (PSchema sch) = Inr (k \<in> set (map fst sch))"
| "py_contains k v = Inl (TypeError ''argument is not iterable'')"

section \<open>Frames\<close>

text \<open>
  A pandas frame is its column labels and its rows. \<^verbatim>\<open>pd.concat\<close> refuses an empty list
  with a \<open>ValueError\<close>; otherwise it stacks the rows of the frames in the order of the
  list, over the union of their columns, a cell a frame does not have being \<open>PNaN\<close>.
  \<^verbatim>\<open>pdf[columns]\<close> selects columns by label and raises \<open>KeyError\<close> on a missing one.
\<close>

record DataFrame =
  df_columns :: "string list"
  df_rows :: "pyval list list"

definition lookup_cell :: "string list \<Rightarrow> pyval list \<Rightarrow> string \<Rightarrow> pyval" where
  "lookup_cell cols row c = (case map_of (zip cols row) c of Some v \<Rightarrow> v | None \<Rightarrow> PNaN)"

definition realign :: "string list \<Rightarrow> DataFrame \<Rightarrow> pyval list list" where
  "realign cols d = map (\<lambda>row. map (lookup_cell (df_columns d) row) cols) (df_rows d)"

text \<open>The labels of a list in the order of their first occurrence.\<close>

definition first_seen :: "string list \<Rightarrow> string list" where
  "first_seen xs = rev (remdups (rev xs))"

definition pd_concat :: "DataFrame list \<Rightarrow> error + DataFrame" where
  "pd_concat dfs =
     (if dfs = [] then Inl (ValueError ''No objects to concatenate'')
      else (let cols = first_seen (concat (map df_columns dfs))
            in Inr \<lparr>df_columns = cols, df_rows = concat (map (realign cols) dfs)\<rparr>))"

fun label_of :: "pyval \<Rightarrow> string option" where
  "label_of (PStr s) = Some s"
| "label_of v = None"

definition df_getitem :: "DataFrame \<Rightarrow> pyval list \<Rightarrow> error + DataFrame" where
  "df_getitem pdf labels =
     (if list_all (\<lambda>l. case label_of l of Some c \<Rightarrow> c \<in> set (df_columns pdf) | None \<Rightarrow> False)
           labels
      then Inr \<lparr>df_columns = map (\<lambda>l. the (label_of l)) labels,
                df_rows = realign (map (\<lambda>l. the (label_of l)) labels) pdf\<rparr>
      else Inl (KeyError ''not in index''))"

text \<open>
  Modelled from the spec: the table collaborator (\<^verbatim>\<open>fugue.dataframe\<close>, not part of this
  module) is "constructed from native rows and an optional schema" and gives the native
  rows back; \<^verbatim>\<open>PandasDataFrame\<close> is that constructor.
\<close>

record LocalDataFrame =
  as_pandas :: DataFrame
  schema_of :: "schema option"

definition PandasDataFrame :: "DataFrame \<Rightarrow> schema option \<Rightarrow> LocalDataFrame" where
  "PandasDataFrame pdf sch = \<lparr>as_pandas = pdf, schema_of = sch\<rparr>"

section \<open>Collaborators\<close>

text \<open>
  The file system handle \<^verbatim>\<open>fs\<close> and the format libraries act on the stored files, a state
  of type \<open>'s\<close>. An operation that reads returns a value or an exception; one that
  writes returns the exception it raised, if any, and the state it left.
  \<open>fs_glob u pat\<close> is \<^verbatim>\<open>fs.opendir(u).glob(pat)\<close>, the paths of the matches in listing
  order; \<open>fs_filterdir u pats\<close> is \<^verbatim>\<open>fs.filterdir(u, files=pats)\<close>, the names of the entries.
\<close>

record 's FileSystem =
  fs_exists :: "string \<Rightarrow> 's \<Rightarrow> bool"
  fs_remove :: "string \<Rightarrow> 's \<Rightarrow> error option \<times> 's"
  fs_removetree :: "string \<Rightarrow> 's \<Rightarrow> error option \<times> 's"
  fs_isdir :: "string \<Rightarrow> 's \<Rightarrow> bool"
  fs_glob :: "string \<Rightarrow> string \<Rightarrow> 's \<Rightarrow> error + string list"
  fs_filterdir :: "string \<Rightarrow> string list \<Rightarrow> 's \<Rightarrow> error + string list"

text \<open>
  \<open>avro_read u\<close> stands for opening \<open>u\<close>, reading every record with \<^verbatim>\<open>fastavro.reader\<close>
  and \<^verbatim>\<open>pd.DataFrame.from_records\<close>; \<open>triad_Schema\<close> is the constructor \<^verbatim>\<open>Schema(columns)\<close>
  and \<open>pa_schema\<close> the property \<^verbatim>\<open>df.schema.pa_schema\<close>.
\<close>

record 's Libraries =
  read_csv :: "string \<Rightarrow> kwargs \<Rightarrow> 's \<Rightarrow> error + DataFrame"
  read_parquet :: "string \<Rightarrow> kwargs \<Rightarrow> 's \<Rightarrow> error + DataFrame"
  read_json :: "string \<Rightarrow> kwargs \<Rightarrow> 's \<Rightarrow> error + DataFrame"
  avro_read :: "string \<Rightarrow> 's \<Rightarrow> error + DataFrame"
  to_csv :: "DataFrame \<Rightarrow> string \<Rightarrow> kwargs \<Rightarrow> 's \<Rightarrow> error option \<times> 's"
  to_parquet :: "DataFrame \<Rightarrow> string \<Rightarrow> kwargs \<Rightarrow> 's \<Rightarrow> error option \<times> 's"
  to_json :: "DataFrame \<Rightarrow> string \<Rightarrow> kwargs \<Rightarrow> 's \<Rightarrow> error option \<times> 's"
  to_avro :: "string \<Rightarrow> LocalDataFrame \<Rightarrow> kwargs \<Rightarrow> 's \<Rightarrow> error option \<times> 's"
  triad_Schema :: "pyval \<Rightarrow> error + schema"
  pa_schema :: "LocalDataFrame \<Rightarrow> pyval"

section \<open>Format codecs\<close>

text \<open>
  A dictionary display \<^verbatim>\<open>{"k": v, **kwargs}\<close> is the map of the defaults overridden by
  \<open>kwargs\<close>: \<open>[k \<mapsto> v] ++ kwargs\<close>. A keyword argument written at the call
  (\<^verbatim>\<open>columns=columns\<close>) is added to the options the library receives. A loader returns the
  frame and the schema it applied, if any.
\<close>

definition schema_names :: "schema \<Rightarrow> pyval list" where
  "schema_names sch = map (\<lambda>nt. PStr (fst nt)) sch"

definition save_parquet ::
  "'s Libraries \<Rightarrow> LocalDataFrame \<Rightarrow> FileParser \<Rightarrow> kwargs \<Rightarrow> 's \<Rightarrow> error option \<times> 's" where
  "save_parquet lib df p kwargs s =
     to_parquet lib (as_pandas df) (uri p)
       ([''engine'' \<mapsto> PStr ''pyarrow'', ''schema'' \<mapsto> pa_schema lib df] ++ kwargs) s"

definition load_parquet ::
  "'s Libraries \<Rightarrow> FileParser \<Rightarrow> pyval \<Rightarrow> kwargs \<Rightarrow> 's \<Rightarrow> error + (DataFrame \<times> schema option)" where
  "load_parquet lib p columns kwargs s =
     (case columns of
        PNone \<Rightarrow>
          (case read_parquet lib (uri p) ([''engine'' \<mapsto> PStr ''pyarrow''] ++ kwargs) s of
             Inl e \<Rightarrow> Inl e
           | Inr pdf \<Rightarrow> Inr (pdf, None))
      | PList names \<Rightarrow>
          (case read_parquet lib (uri p)
                  (([''engine'' \<mapsto> PStr ''pyarrow''] ++ kwargs)(''columns'' \<mapsto> columns)) s of
             Inl e \<Rightarrow> Inl e
           | Inr pdf \<Rightarrow> Inr (pdf, None))
      | _ \<Rightarrow>
          (case triad_Schema lib columns of
             Inl e \<Rightarrow> Inl e
           | Inr sch \<Rightarrow>
               (case read_parquet lib (uri p)
                       (([''engine'' \<mapsto> PStr ''pyarrow''] ++ kwargs)
                          (''columns'' \<mapsto> PList (schema_names sch))) s of
                  Inl e \<Rightarrow> Inl e
                | Inr pdf \<Rightarrow> Inr (pdf, Some sch))))"

definition save_csv ::
  "'s Libraries \<Rightarrow> LocalDataFrame \<Rightarrow> FileParser \<Rightarrow> kwargs \<Rightarrow> 's \<Rightarrow> error option \<times> 's" where
  "save_csv lib df p kwargs s =
     to_csv lib (as_pandas df) (uri p)
       ([''index'' \<mapsto> PBool False, ''header'' \<mapsto> PBool False] ++ kwargs) s"

text \<open>
  The selection after a read, shared by the loaders: \<^verbatim>\<open>pdf\<close> itself, \<^verbatim>\<open>pdf[columns]\<close>, or
  \<^verbatim>\<open>pdf[schema.names]\<close> with the schema.
\<close>

definition select_columns ::
  "'s Libraries \<Rightarrow> DataFrame \<Rightarrow> pyval \<Rightarrow> error + (DataFrame \<times> schema option)" where
  "select_columns lib pdf columns =
     (case columns of
        PNone \<Rightarrow> Inr (pdf, None)
      | PList names \<Rightarrow>
          (case df_getitem pdf names of Inl e \<Rightarrow> Inl e | Inr d \<Rightarrow> Inr (d, None))
      | _ \<Rightarrow>
          (case triad_Schema lib columns of
             Inl e \<Rightarrow> Inl e
           | Inr sch \<Rightarrow>
               (case df_getitem pdf (schema_names sch) of
                  Inl e \<Rightarrow> Inl e
                | Inr d \<Rightarrow> Inr (d, Some sch))))"

definition load_csv ::
  "'s Libraries \<Rightarrow> FileParser \<Rightarrow> pyval \<Rightarrow> kwargs \<Rightarrow> 's \<Rightarrow> error + (DataFrame \<times> schema option)" where
  "load_csv lib p columns kwargs s =
     (let kw0 = kwargs;
          infer_schema = (case kw0 ''infer_schema'' of Some v \<Rightarrow> v | None \<Rightarrow> PBool False);
          kw1 = (if \<not> truthy infer_schema then kw0(''dtype'' \<mapsto> PType ''object'') else kw0);
          kw2 = (if kw1 ''infer_schema'' \<noteq> None then kw1(''infer_schema'' := None) else kw1);
          header = (case kw2 ''header'' of Some v \<Rightarrow> v | None \<Rightarrow> PBool False);
          kw = (if kw2 ''header'' \<noteq> None then kw2(''header'' := None) else kw2)
      in if py_str header \<in> set [''True'', ''0''] then
           (case read_csv lib (uri p)
                   ([''index_col'' \<mapsto> PBool False, ''header'' \<mapsto> PInt 0] ++ kw) s of
              Inl e \<Rightarrow> Inl e
            | Inr pdf \<Rightarrow> select_columns lib pdf columns)
         else if header = PNone \<or> py_str header = ''False'' then
           (case columns of
              PNone \<Rightarrow> Inl (InvalidOperationError ''columns must be set if without header'')
            | PList names \<Rightarrow>
                (case read_csv lib (uri p)
                        ([''index_col'' \<mapsto> PBool False, ''header'' \<mapsto> PNone,
                          ''names'' \<mapsto> columns] ++ kw) s of
                   Inl e \<Rightarrow> Inl e
                 | Inr pdf \<Rightarrow> Inr (pdf, None))
            | _ \<Rightarrow>
                (case triad_Schema lib columns of
                   Inl e \<Rightarrow> Inl e
                 | Inr sch \<Rightarrow>
                     (case read_csv lib (uri p)
                             ([''index_col'' \<mapsto> PBool False, ''header'' \<mapsto> PNone,
                               ''names'' \<mapsto> PList (schema_names sch)] ++ kw) s of
                        Inl e \<Rightarrow> Inl e
                      | Inr pdf \<Rightarrow> Inr (pdf, Some sch))))
         else Inl (NotImplementedError (py_str header @ '' is not supported'')))"

text \<open>
  The options \<^verbatim>\<open>kw\<close> that \<^verbatim>\<open>_load_csv\<close> is left with after lines 171 to 180, in one
  expression: \<^verbatim>\<open>dtype\<close> set unless \<^verbatim>\<open>infer_schema\<close> is true, \<^verbatim>\<open>infer_schema\<close> and
  \<^verbatim>\<open>header\<close> deleted.
\<close>

definition csv_options :: "kwargs \<Rightarrow> kwargs" where
  "csv_options kwargs =
     (if truthy (case kwargs ''infer_schema'' of Some v \<Rightarrow> v | None \<Rightarrow> PBool False)
      then kwargs else kwargs(''dtype'' \<mapsto> PType ''object''))
       (''infer_schema'' := None, ''header'' := None)"

definition save_json ::
  "'s Libraries \<Rightarrow> LocalDataFrame \<Rightarrow> FileParser \<Rightarrow> kwargs \<Rightarrow> 's \<Rightarrow> error option \<times> 's" where
  "save_json lib df p kwargs s = to_json lib (as_pandas df) (uri p) kwargs s"

definition load_json ::
  "'s Libraries \<Rightarrow> FileParser \<Rightarrow> pyval \<Rightarrow> kwargs \<Rightarrow> 's \<Rightarrow> error + (DataFrame \<times> schema option)" where
  "load_json lib p columns kwargs s =
     (case read_json lib (uri p) kwargs s of
        Inl e \<Rightarrow> Inl e
      | Inr pdf \<Rightarrow> select_columns lib pdf columns)"

definition convert_pyarrow_to_avro_schema :: "pyval \<Rightarrow> pyval" where
  "convert_pyarrow_to_avro_schema columns = columns"

text \<open>
  \<^verbatim>\<open>_save_avro\<close> assigns its locals \<^verbatim>\<open>schema\<close>, \<^verbatim>\<open>append\<close> and \<^verbatim>\<open>times_as_micros\<close> only on
  some branches; a local is \<open>None\<close> here while it is unbound, and reading it then raises
  \<open>UnboundLocalError\<close>. Subscripting and \<^verbatim>\<open>del\<close> on a missing key raise \<open>KeyError\<close>. The
  three steps before the call each return the options left and the local they set.
\<close>

definition save_avro_schema :: "pyval \<Rightarrow> kwargs \<Rightarrow> error + (kwargs \<times> pyval option)" where
  "save_avro_schema columns kw =
     (case kw ''schema'' of
        None \<Rightarrow> Inr (kw, None)
      | Some schema0 \<Rightarrow>
          (if schema0 = PNone then
             (let schema = (if columns \<noteq> PNone then convert_pyarrow_to_avro_schema columns
                            else schema0)
              in if kw ''infer_schema'' = None then Inl (KeyError ''infer_schema'')
                 else Inr (kw(''infer_schema'' := None), Some schema))
           else if truthy columns then
             Inl (PyException ''set columns to None when schema is provided'')
           else if kw ''infer_schema'' = None then Inl (KeyError ''infer_schema'')
           else Inr (kw(''infer_schema'' := None), Some schema0)))"

definition save_avro_infer :: "pyval option \<Rightarrow> kwargs \<Rightarrow> error + kwargs" where
  "save_avro_infer schema kw =
     (case kw ''infer_schema'' of
        None \<Rightarrow> Inr kw
      | Some infer_schema \<Rightarrow>
          (if truthy infer_schema then
             (case schema of
                None \<Rightarrow> Inl (UnboundLocalError ''schema'')
              | Some sc \<Rightarrow>
                  if sc \<noteq> PNone
                  then Inl (PyException ''set infer_schema to False when schema is provided'')
                  else Inr (kw(''infer_schema'' := None)))
           else Inr (kw(''infer_schema'' := None))))"

definition save_avro_append :: "kwargs \<Rightarrow> error + (kwargs \<times> pyval option)" where
  "save_avro_append kw =
     (case kw ''append'' of
        None \<Rightarrow> Inl (KeyError ''append'')
      | Some a \<Rightarrow>
          (case py_contains ''append'' a of
             Inl e \<Rightarrow> Inl e
           | Inr True \<Rightarrow> Inr (kw(''append'' := None), Some a)
           | Inr False \<Rightarrow> Inr (kw, None)))"

definition save_avro ::
  "'s Libraries \<Rightarrow> LocalDataFrame \<Rightarrow> FileParser \<Rightarrow> pyval \<Rightarrow> kwargs \<Rightarrow> 's \<Rightarrow> error option \<times> 's" where
  "save_avro lib df p columns kwargs s =
     (case save_avro_schema columns kwargs of
        Inl e \<Rightarrow> (Some e, s)
      | Inr (kw1, schema) \<Rightarrow>
     (case save_avro_infer schema kw1 of
        Inl e \<Rightarrow> (Some e, s)
      | Inr kw2 \<Rightarrow>
     (case save_avro_append kw2 of
        Inl e \<Rightarrow> (Some e, s)
      | Inr (kw3, append_v) \<Rightarrow>
     (let times_as_micros = kw3 ''times_as_micros'';
          kw = (if kw3 ''times_as_micros'' \<noteq> None then kw3(''times_as_micros'' := None) else kw3)
      in case schema of
           None \<Rightarrow> (Some (UnboundLocalError ''schema''), s)
         | Some sc \<Rightarrow>
        (case append_v of
           None \<Rightarrow> (Some (UnboundLocalError ''append''), s)
         | Some ap \<Rightarrow>
        (case times_as_micros of
           None \<Rightarrow> (Some (UnboundLocalError ''times_as_micros''), s)
         | Some tm \<Rightarrow>
             if kw ''schema'' = None \<and> kw ''append'' = None \<and> kw ''times_as_micros'' = None
             then to_avro lib (uri p) df
                    (kw(''schema'' \<mapsto> sc, ''append'' \<mapsto> ap, ''times_as_micros'' \<mapsto> tm)) s
             else (Some (TypeError ''got multiple values for keyword argument''), s)))))))"

definition load_avro ::
  "'s Libraries \<Rightarrow> FileParser \<Rightarrow> pyval \<Rightarrow> kwargs \<Rightarrow> 's \<Rightarrow> error + (DataFrame \<times> schema option)" where
  "load_avro lib p columns kwargs s =
     (case avro_read lib (uri p) s of
        Inl e \<Rightarrow> Inl e
      | Inr pdf \<Rightarrow> select_columns lib pdf columns)"

text \<open>
  The dispatch tables. A saver is called as \<^verbatim>\<open>saver(df, p, **kwargs)\<close>; the Avro saver has
  a parameter \<^verbatim>\<open>columns\<close>, which takes the option of that name when there is one.
\<close>

definition FORMAT_LOAD ::
  "'s Libraries \<Rightarrow> string \<Rightarrow>
   (FileParser \<Rightarrow> pyval \<Rightarrow> kwargs \<Rightarrow> 's \<Rightarrow> error + (DataFrame \<times> schema option)) option" where
  "FORMAT_LOAD lib fmt =
     map_of [(''csv'', load_csv lib), (''parquet'', load_parquet lib),
             (''json'', load_json lib), (''avro'', load_avro lib)] fmt"

definition FORMAT_SAVE ::
  "'s Libraries \<Rightarrow> string \<Rightarrow>
   (LocalDataFrame \<Rightarrow> FileParser \<Rightarrow> kwargs \<Rightarrow> 's \<Rightarrow> error option \<times> 's) option" where
  "FORMAT_SAVE lib fmt =
     map_of [(''csv'', save_csv lib), (''parquet'', save_parquet lib),
             (''json'', save_json lib),
             (''avro'', \<lambda>df p kwargs.
                 save_avro lib df p (case kwargs ''columns'' of Some c \<Rightarrow> c | None \<Rightarrow> PNone)
                   (kwargs(''columns'' := None)))] fmt"

section \<open>File enumeration\<close>

text \<open>
  A list comprehension over \<^verbatim>\<open>FileParser(u, hint)\<close> builds the whole list or raises the first
  failure; a generator that yields \<^verbatim>\<open>FileParser(u)\<close> one by one has yielded the parsers
  before the first failure when it raises.
\<close>

fun parse_all :: "string list \<Rightarrow> string option \<Rightarrow> error + FileParser list" where
  "parse_all [] format_hint = Inr []"
| "parse_all (u # us) format_hint =
     (case FileParser_init u format_hint of
        Inl e \<Rightarrow> Inl e
      | Inr f \<Rightarrow>
          (case parse_all us format_hint of Inl e \<Rightarrow> Inl e | Inr fs \<Rightarrow> Inr (f # fs)))"

fun yield_parsed :: "string list \<Rightarrow> FileParser list \<times> error option" where
  "yield_parsed [] = ([], None)"
| "yield_parsed (u # us) =
     (case FileParser_init u None of
        Inl e \<Rightarrow> ([], Some e)
      | Inr f \<Rightarrow> (case yield_parsed us of (fs, r) \<Rightarrow> (f # fs, r)))"

text \<open>
  \<^verbatim>\<open>_get_single_files\<close> is a generator: its result is the list of the parsers it yields and
  the exception that ends it, if any. The file system is read, never written, so every
  call sees the same state. The first argument bounds the depth of the recursive
  \<^verbatim>\<open>yield from\<close>, as the interpreter's recursion limit does: with no depth left the call
  raises \<open>RecursionError\<close>.
\<close>

fun get_single_files ::
  "nat \<Rightarrow> 's FileSystem \<Rightarrow> 's \<Rightarrow> FileParser list \<Rightarrow> FileParser list \<times> error option" where
  "get_single_files 0 fs s fp = ([], Some RecursionError)"
| "get_single_files (Suc d) fs s [] = ([], None)"
| "get_single_files (Suc d) fs s (f # rest) =
     (case (if glob_pattern f \<noteq> '''' then
              (case fs_glob fs (uri f) (glob_pattern f) s of
                 Inl e \<Rightarrow> ([], Some e)
               | Inr xs \<Rightarrow>
                   (case parse_all
                           (map (\<lambda>x. os_path_join (uri f) (os_path_basename x)) xs) None of
                      Inl e \<Rightarrow> ([], Some e)
                    | Inr files \<Rightarrow> get_single_files d fs s files))
            else if fs_isdir fs (uri f) s then
              (case fs_filterdir fs (uri f) [''*.'' @ file_format f] s of
                 Inl e \<Rightarrow> ([], Some e)
               | Inr names \<Rightarrow> yield_parsed (map (\<lambda>x. os_path_join (uri f) x) names))
            else ([f], None))
      of (ys, Some e) \<Rightarrow> (ys, Some e)
       | (ys, None) \<Rightarrow>
           (case get_single_files (Suc d) fs s rest of (zs, r) \<Rightarrow> (ys @ zs, r)))"

section \<open>Load and save\<close>

datatype uri_arg = Single string | Several "string list"

text \<open>
  The calls \<^verbatim>\<open>loader(f, columns, **kwargs)\<close> and \<^verbatim>\<open>saver(df, p, **kwargs)\<close>: an option named
  like a positional parameter of the callee makes the call itself raise \<open>TypeError\<close>.
\<close>

definition call_loader ::
  "(FileParser \<Rightarrow> pyval \<Rightarrow> kwargs \<Rightarrow> 's \<Rightarrow> error + (DataFrame \<times> schema option)) \<Rightarrow>
   FileParser \<Rightarrow> pyval \<Rightarrow> kwargs \<Rightarrow> 's \<Rightarrow> error + (DataFrame \<times> schema option)" where
  "call_loader loader f columns kwargs s =
     (if kwargs ''p'' = None \<and> kwargs ''columns'' = None then loader f columns kwargs s
      else Inl (TypeError ''got multiple values for argument''))"

definition call_saver ::
  "(LocalDataFrame \<Rightarrow> FileParser \<Rightarrow> kwargs \<Rightarrow> 's \<Rightarrow> error option \<times> 's) \<Rightarrow>
   LocalDataFrame \<Rightarrow> FileParser \<Rightarrow> kwargs \<Rightarrow> 's \<Rightarrow> error option \<times> 's" where
  "call_saver saver df p kwargs s =
     (if kwargs ''df'' = None \<and> kwargs ''p'' = None then saver df p kwargs s
      else (Some (TypeError ''got multiple values for argument''), s))"

text \<open>
  One pass of the loop of \<^verbatim>\<open>load_df\<close>: the loader of the file's format, applied to
  \<^verbatim>\<open>f.assert_no_glob()\<close>; then the loop, whose accumulator is the list \<^verbatim>\<open>dfs\<close> and the
  variable \<^verbatim>\<open>schema\<close>.
\<close>

definition load_file ::
  "'s Libraries \<Rightarrow> pyval \<Rightarrow> kwargs \<Rightarrow> 's \<Rightarrow> FileParser \<Rightarrow> error + (DataFrame \<times> schema option)" where
  "load_file lib columns kwargs s f =
     (case FORMAT_LOAD lib (file_format f) of
        None \<Rightarrow> Inl (KeyError (file_format f))
      | Some loader \<Rightarrow>
          (case assert_no_glob f of
             Inl e \<Rightarrow> Inl e
           | Inr f' \<Rightarrow> call_loader loader f' columns kwargs s))"

fun load_loop ::
  "'s Libraries \<Rightarrow> pyval \<Rightarrow> kwargs \<Rightarrow> 's \<Rightarrow> FileParser list \<Rightarrow>
   DataFrame list \<times> schema option \<Rightarrow> error + (DataFrame list \<times> schema option)" where
  "load_loop lib columns kwargs s [] acc = Inr acc"
| "load_loop lib columns kwargs s (f # files) acc =
     (case load_file lib columns kwargs s f of
        Inl e \<Rightarrow> Inl e
      | Inr (df, schema) \<Rightarrow> load_loop lib columns kwargs s files (fst acc @ [df], schema))"

text \<open>Lines 85 to 88: one parser for a string, one per element for a list.\<close>

definition parse_uri_arg :: "uri_arg \<Rightarrow> string option \<Rightarrow> error + FileParser list" where
  "parse_uri_arg uri_a format_hint =
     (case uri_a of
        Single u \<Rightarrow> parse_all [u] format_hint
      | Several us \<Rightarrow> parse_all us format_hint)"

definition load_df ::
  "nat \<Rightarrow> 's Libraries \<Rightarrow> 's FileSystem \<Rightarrow> uri_arg \<Rightarrow> string option \<Rightarrow> pyval \<Rightarrow> kwargs \<Rightarrow> 's \<Rightarrow>
   error + LocalDataFrame" where
  "load_df depth lib fs uri_a format_hint columns kwargs s =
     (case parse_uri_arg uri_a format_hint of
        Inl e \<Rightarrow> Inl e
      | Inr fp \<Rightarrow>
          (case get_single_files depth fs s fp of
             (files, stop) \<Rightarrow>
               (case load_loop lib columns kwargs s files ([], None) of
                  Inl e \<Rightarrow> Inl e
                | Inr (dfs, schema) \<Rightarrow>
                    (case stop of
                       Some e \<Rightarrow> Inl e
                     | None \<Rightarrow>
                         (case pd_concat dfs of
                            Inl e \<Rightarrow> Inl e
                          | Inr pdf \<Rightarrow> Inr (PandasDataFrame pdf schema))))))"

text \<open>
  The removal of an existing destination in \<^verbatim>\<open>save_df\<close>: \<^verbatim>\<open>fs.remove\<close>, on an exception
  \<^verbatim>\<open>fs.removetree\<close>, whose own exception is dropped. The result is the state left.
\<close>

definition remove_existing :: "'s FileSystem \<Rightarrow> string \<Rightarrow> 's \<Rightarrow> 's" where
  "remove_existing fs u s =
     (case fs_remove fs u s of
        (None, s1) \<Rightarrow> s1
      | (Some e, s1) \<Rightarrow>
          (case fs_removetree fs u s1 of
             (None, s2) \<Rightarrow> s2
           | (Some e', s2) \<Rightarrow> s2))"

definition save_df ::
  "'s Libraries \<Rightarrow> 's FileSystem \<Rightarrow> LocalDataFrame \<Rightarrow> string \<Rightarrow> string option \<Rightarrow> string \<Rightarrow>
   kwargs \<Rightarrow> 's \<Rightarrow> error option \<times> 's" where
  "save_df lib fs df u format_hint mode kwargs s =
     (if mode \<notin> set [''overwrite'', ''error'']
      then (Some (NotImplementedError (mode @ '' is not supported'')), s)
      else
        (case FileParser_init u format_hint of
           Inl e \<Rightarrow> (Some e, s)
         | Inr p0 \<Rightarrow>
        (case assert_no_glob p0 of
           Inl e \<Rightarrow> (Some e, s)
         | Inr p \<Rightarrow>
        (case (if fs_exists fs u s then
                 (if mode \<noteq> ''overwrite'' then Inl (FileExistsError u)
                  else Inr (remove_existing fs u s))
               else Inr s) of
           Inl e \<Rightarrow> (Some e, s)
         | Inr s' \<Rightarrow>
             (case FORMAT_SAVE lib (file_format p) of
                None \<Rightarrow> (Some (KeyError (file_format p)), s')
              | Some saver \<Rightarrow> call_saver saver df p kwargs s')))))"

section \<open>A file store for the examples\<close>

text \<open>
  The examples run on a small store: a list of files, each a path and the lines of cells
  written to it. A directory exists when a file lies under it. A header is the first line
  of a file. The glob of the store knows \<^verbatim>\<open>*\<close> and \<^verbatim>\<open>?\<close>.
\<close>

type_synonym store = "(string \<times> pyval list list) list"

fun wildcard_match :: "string \<Rightarrow> string \<Rightarrow> bool" where
  "wildcard_match [] s = (s = [])"
| "wildcard_match (c # pat) [] = (c = CHR ''*'' \<and> wildcard_match pat [])"
| "wildcard_match (c # pat) (x # s) =
     (if c = CHR ''*'' then wildcard_match pat (x # s) \<or> wildcard_match (c # pat) s
      else (c = CHR ''?'' \<or> c = x) \<and> wildcard_match pat s)"

definition store_isdir :: "string \<Rightarrow> store \<Rightarrow> bool" where
  "store_isdir u s = list_ex (\<lambda>kv. startswith (fst kv) (u @ ''/'')) s"

definition store_entries :: "string \<Rightarrow> string list \<Rightarrow> store \<Rightarrow> string list" where
  "store_entries u pats s =
     filter (\<lambda>k. k = u @ ''/'' @ os_path_basename k
                 \<and> list_ex (\<lambda>pat. wildcard_match pat (os_path_basename k)) pats)
       (map fst s)"

definition store_fs :: "store FileSystem" where
  "store_fs =
     \<lparr>fs_exists = (\<lambda>u s. store_isdir u s \<or> map_of s u \<noteq> None),
      fs_remove = (\<lambda>u s. if map_of s u \<noteq> None then (None, filter (\<lambda>kv. fst kv \<noteq> u) s)
                          else (Some (IOError ''not a file''), s)),
      fs_removetree = (\<lambda>u s. if store_isdir u s
                              then (None, filter (\<lambda>kv. \<not> startswith (fst kv) (u @ ''/'')) s)
                              else (Some (IOError ''not a directory''), s)),
      fs_isdir = store_isdir,
      fs_glob = (\<lambda>u pat s. Inr (store_entries u [pat] s)),
      fs_filterdir = (\<lambda>u pats s. Inr (map os_path_basename (store_entries u pats s)))\<rparr>"

text \<open>A file system that refuses every removal.\<close>

definition locked_fs :: "store FileSystem" where
  "locked_fs =
     store_fs\<lparr>fs_remove := (\<lambda>u s. (Some (IOError ''permission denied''), s)),
              fs_removetree := (\<lambda>u s. (Some (IOError ''permission denied''), s))\<rparr>"

definition store_read :: "string \<Rightarrow> kwargs \<Rightarrow> store \<Rightarrow> error + DataFrame" where
  "store_read u kw s =
     (case map_of s u of
        None \<Rightarrow> Inl (IOError ''no such file'')
      | Some lines \<Rightarrow>
          (case kw ''names'' of
             Some (PList ns) \<Rightarrow> Inr \<lparr>df_columns = map py_str ns, df_rows = lines\<rparr>
           | _ \<Rightarrow>
               (case lines of
                  [] \<Rightarrow> Inl (ValueError ''no columns to parse from file'')
                | h # rows \<Rightarrow> Inr \<lparr>df_columns = map py_str h, df_rows = rows\<rparr>)))"

definition store_write :: "DataFrame \<Rightarrow> string \<Rightarrow> kwargs \<Rightarrow> store \<Rightarrow> error option \<times> store" where
  "store_write d u kw s =
     (let header = (case kw ''header'' of Some v \<Rightarrow> truthy v | None \<Rightarrow> True);
          index = (case kw ''index'' of Some v \<Rightarrow> truthy v | None \<Rightarrow> True);
          body = (if index
                  then map (\<lambda>ir. PInt (int (fst ir)) # snd ir) (enumerate 0 (df_rows d))
                  else df_rows d);
          top = (if index then PStr '''' # map PStr (df_columns d) else map PStr (df_columns d))
      in (None, (u, (if header then [top] else []) @ body) # filter (\<lambda>kv. fst kv \<noteq> u) s))"

definition store_lib :: "store Libraries" where
  "store_lib =
     \<lparr>read_csv = store_read, read_parquet = store_read, read_json = store_read,
      avro_read = (\<lambda>u s. store_read u Map.empty s),
      to_csv = store_write, to_parquet = store_write, to_json = store_write,
      to_avro = (\<lambda>u df kw s. store_write (as_pandas df) u kw s),
      triad_Schema = (\<lambda>v. case v of PSchema sch \<Rightarrow> Inr sch
                              | _ \<Rightarrow> Inl (PyException ''not a schema'')),
      pa_schema = (\<lambda>df. case schema_of df of Some sch \<Rightarrow> PSchema sch | None \<Rightarrow> PNone)\<rparr>"

definition csv_file :: FileParser where
  "csv_file = \<lparr>attr_uri = plain_uri ''t.csv'', attr_glob_pattern = '''',
               attr_path = ''t.csv'', attr_format = ''csv''\<rparr>"

definition table_ab :: LocalDataFrame where
  "table_ab = PandasDataFrame \<lparr>df_columns = [''a'', ''b''],
                               df_rows = [[PInt 1, PStr ''x''], [PInt 2, PStr ''y'']]\<rparr> None"

text \<open>
  A frame is regular over \<open>cols\<close> when these are its columns and every row has one cell
  per column.
\<close>

definition regular_frame :: "string list \<Rightarrow> DataFrame \<Rightarrow> bool" where
  "regular_frame cols d =
     (df_columns d = cols \<and> list_all (\<lambda>row. length row = length cols) (df_rows d))"

text \<open>A directory \<^verbatim>\<open>d\<close> with two CSV files without header and a file of another kind.\<close>

definition two_csv :: store where
  "two_csv = [(''d/x.csv'', [[PInt 1, PStr ''p'']]),
              (''d/y.csv'', [[PInt 2, PStr ''q''], [PInt 3, PStr ''r'']]),
              (''d/z.xyz'', [])]"

definition file_in_d :: "string \<Rightarrow> FileParser" where
  "file_in_d name = \<lparr>attr_uri = plain_uri (''d/'' @ name), attr_glob_pattern = '''',
                      attr_path = ''d/'' @ name, attr_format = ''csv''\<rparr>"

definition glob_in_d :: "string \<Rightarrow> string \<Rightarrow> FileParser" where
  "glob_in_d pat fmt = \<lparr>attr_uri = plain_uri ''d'', attr_glob_pattern = pat,
                         attr_path = ''d/'' @ pat, attr_format = fmt\<rparr>"


definition special_chars :: string where
  "special_chars = [CHR ''*'', CHR ''?'', CHR ''/'', CHR 0x5C, CHR '':'', CHR ''#'', CHR '';'']"

section \<open>Properties of the path parser\<close>

lemma scan_glob_sep:
  "list_all (\<lambda>c. c \<noteq> CHR ''*'' \<and> c \<noteq> CHR ''?'') pre \<Longrightarrow> g = CHR ''*'' \<or> g = CHR ''?'' \<Longrightarrow>
   scan_glob (pre @ g # rest) i l = (l', b) \<Longrightarrow>
   b \<and> (if list_ex (\<lambda>c. c = CHR ''/'' \<or> c = CHR 0x5C) pre
        then i \<le> l' \<and> l' < i + length pre else l' = l)"
proof (induction pre arbitrary: i l)
  case Nil
  then show ?case by (auto simp: Let_def)
next
  case (Cons c cs)
  have notglob: "c \<noteq> CHR ''*''" "c \<noteq> CHR ''?''"
    and rest: "list_all (\<lambda>c. c \<noteq> CHR ''*'' \<and> c \<noteq> CHR ''?'') cs"
    using Cons.prems(1) by auto
  show ?case
  proof (cases "c = CHR ''/'' \<or> c = CHR 0x5C")
    case True
    then have "scan_glob (cs @ g # rest) (Suc i) i = (l', b)"
      using Cons.prems(3) notglob by (auto simp: Let_def)
    from Cons.IH[OF rest Cons.prems(2) this] True show ?thesis
      by (auto split: if_splits)
  next
    case False
    then have "scan_glob (cs @ g # rest) (Suc i) l = (l', b)"
      using Cons.prems(3) notglob by (auto simp: Let_def)
    from Cons.IH[OF rest Cons.prems(2) this] False show ?thesis
      by (auto split: if_splits)
  qed
qed


text \<open>
  Where a separator stands before the first \<^verbatim>\<open>*\<close> or \<^verbatim>\<open>?\<close>, a parser that is built has a
  glob pattern and \<^verbatim>\<open>assert_no_glob\<close> refuses it.
\<close>

lemma glob_pattern_after_separator:
  assumes "list_all (\<lambda>c. c \<noteq> CHR ''*'' \<and> c \<noteq> CHR ''?'') pre"
    and "g = CHR ''*'' \<or> g = CHR ''?''"
    and "list_ex (\<lambda>c. c = CHR ''/'' \<or> c = CHR 0x5C) pre"
    and "FileParser_init (pre @ g # rest) hint = Inr p"
  shows "glob_pattern p \<noteq> ''''
       \<and> assert_no_glob p = Inl (AssertionError (path p @ '' has glob pattern''))"
proof -
  obtain l' b where sg: "scan_glob (pre @ g # rest) 0 (length (pre @ g # rest)) = (l', b)"
    by (cases "scan_glob (pre @ g # rest) 0 (length (pre @ g # rest))") auto
  from scan_glob_sep[OF assms(1,2) sg] assms(3) have b: b and l': "l' < length pre" by auto
  have "drop (l' + 1) (pre @ g # rest) \<noteq> []" using l' by simp
  moreover have "attr_glob_pattern p = drop (l' + 1) (pre @ g # rest)"
    using assms(4) sg b
    by (auto simp: FileParser_init_def parse_location_def Let_def split: sum.splits prod.splits)
  ultimately show ?thesis by (simp add: glob_pattern_def assert_no_glob_def)
qed

text \<open>
  Where none does, the pattern stored is empty and \<^verbatim>\<open>assert_no_glob\<close> lets the parser
  through.
\<close>

lemma glob_pattern_without_separator:
  assumes "list_all (\<lambda>c. c \<noteq> CHR ''*'' \<and> c \<noteq> CHR ''?'') pre"
    and "g = CHR ''*'' \<or> g = CHR ''?''"
    and "\<not> list_ex (\<lambda>c. c = CHR ''/'' \<or> c = CHR 0x5C) pre"
    and "FileParser_init (pre @ g # rest) hint = Inr p"
  shows "glob_pattern p = '''' \<and> assert_no_glob p = Inr p"
proof -
  obtain l' b where sg: "scan_glob (pre @ g # rest) 0 (length (pre @ g # rest)) = (l', b)"
    by (cases "scan_glob (pre @ g # rest) 0 (length (pre @ g # rest))") auto
  from scan_glob_sep[OF assms(1,2) sg] assms(3)
  have b: b and l': "l' = length (pre @ g # rest)" by auto
  have "attr_glob_pattern p = drop (l' + 1) (pre @ g # rest)"
    using assms(4) sg b
    by (auto simp: FileParser_init_def parse_location_def Let_def split: sum.splits prod.splits)
  then show ?thesis using l' by (simp add: glob_pattern_def assert_no_glob_def)
qed

text \<open>
  Claim C1: for every path that contains \<^verbatim>\<open>*\<close> or \<^verbatim>\<open>?\<close> the parser gives a non-empty glob
  pattern and \<^verbatim>\<open>assert_no_glob\<close> fails. The code misses the paths in which no separator
  stands before the first wildcard: \<^verbatim>\<open>last\<close> keeps its initial value, the length of the
  path, so the pattern \<^verbatim>\<open>path[last + 1:]\<close> is empty. For \<^verbatim>\<open>*.csv\<close> the parser is built with
  an empty glob pattern, the path \<^verbatim>\<open>*.csv/\<close> and the format csv, and \<^verbatim>\<open>assert_no_glob\<close>
  returns it.
\<close>

theorem glob_without_separator_is_lost:
  "(case FileParser_init ''*.csv'' None of
      Inl e \<Rightarrow> False
    | Inr p \<Rightarrow> glob_pattern p = '''' \<and> path p = ''*.csv/'' \<and> uri p = ''*.csv''
              \<and> file_format p = ''csv'' \<and> assert_no_glob p = Inr p)"
  by code_simp

















lemma special_not_lowercase: "x \<in> set special_chars \<Longrightarrow> x \<notin> set ascii_lowercase"
  by (auto simp: special_chars_def ascii_lowercase_def)












section \<open>Properties of saving\<close>

lemma resolve_format_registered:
  "resolve_format p hint = Inr f \<Longrightarrow> f \<in> set [''csv'', ''parquet'', ''json'', ''avro'']"
  by (auto simp: resolve_format_def FORMAT_MAP_def split: if_splits option.splits)

lemma FileParser_init_format:
  "FileParser_init u hint = Inr p \<Longrightarrow>
   file_format p \<in> set [''csv'', ''parquet'', ''json'', ''avro'']"
  by (auto simp: FileParser_init_def file_format_def split: sum.splits
           dest!: resolve_format_registered)

lemma FORMAT_SAVE_registered:
  "f \<in> set [''csv'', ''parquet'', ''json'', ''avro''] \<Longrightarrow> FORMAT_SAVE lib f \<noteq> None"
  by (auto simp: FORMAT_SAVE_def)

lemma FORMAT_LOAD_registered:
  "f \<in> set [''csv'', ''parquet'', ''json'', ''avro''] \<Longrightarrow> FORMAT_LOAD lib f \<noteq> None"
  by (auto simp: FORMAT_LOAD_def)

text \<open>
  Claim C3: a save with mode \<^verbatim>\<open>"error"\<close> to a destination that parses without a glob and
  that exists fails with \<open>FileExistsError\<close> (AlreadyExists), and the stored files are as
  before. The file system and the libraries are arbitrary: whatever \<^verbatim>\<open>remove\<close>,
  \<^verbatim>\<open>removetree\<close> and the writers would do, the state returned is the state given, so none
  of them has run.
\<close>

theorem save_error_mode_keeps_destination:
  assumes "FileParser_init u format_hint = Inr p" and "glob_pattern p = ''''"
    and "fs_exists fs u s"
  shows "save_df lib fs df u format_hint ''error'' kwargs s = (Some (FileExistsError u), s)"
  using assms by (simp add: save_df_def assert_no_glob_def)

theorem save_error_mode_keeps_destination_witness:
  "save_df store_lib store_fs table_ab ''out.csv'' None ''error'' Map.empty
     [(''out.csv'', [[PInt 9]])]
   = (Some (FileExistsError ''out.csv''), [(''out.csv'', [[PInt 9]])])"
proof -
  have p: "FileParser_init ''out.csv'' None =
     Inr \<lparr>attr_uri = plain_uri ''out.csv'', attr_glob_pattern = '''',
          attr_path = ''out.csv'', attr_format = ''csv''\<rparr>" by code_simp
  have e: "fs_exists store_fs ''out.csv'' [(''out.csv'', [[PInt 9]])]" by code_simp
  show ?thesis
    using save_error_mode_keeps_destination[OF p _ e] by (simp add: glob_pattern_def)
qed

text \<open>
  Claim C4: a save with mode \<^verbatim>\<open>"overwrite"\<close> to an existing destination first calls
  \<^verbatim>\<open>fs.remove\<close>; when that raises it calls \<^verbatim>\<open>fs.removetree\<close> on the state \<^verbatim>\<open>remove\<close> left;
  whatever \<^verbatim>\<open>removetree\<close> returns, exception or not, the saver of the format is called
  next, and the result of that call is the result of the save. A saver is registered for
  every format a parser can hold.
\<close>

theorem save_overwrite_removal:
  assumes "FileParser_init u format_hint = Inr p" and "glob_pattern p = ''''"
    and "fs_exists fs u s"
  shows "FORMAT_SAVE lib (file_format p) \<noteq> None
       \<and> save_df lib fs df u format_hint ''overwrite'' kwargs s =
           (case fs_remove fs u s of
              (None, s1) \<Rightarrow> call_saver (the (FORMAT_SAVE lib (file_format p))) df p kwargs s1
            | (Some e, s1) \<Rightarrow>
                (case fs_removetree fs u s1 of
                   (r, s2) \<Rightarrow>
                     call_saver (the (FORMAT_SAVE lib (file_format p))) df p kwargs s2))"
proof -
  have reg: "FORMAT_SAVE lib (file_format p) \<noteq> None"
    using FileParser_init_format[OF assms(1)] FORMAT_SAVE_registered by blast
  then obtain saver where sv: "FORMAT_SAVE lib (file_format p) = Some saver" by auto
  show ?thesis
    using assms sv
    by (auto simp: save_df_def assert_no_glob_def remove_existing_def
             split: prod.splits option.splits)
qed

text \<open>
  Two runs: on a file system that refuses both removals the file is written all the same;
  a destination that is a directory is removed as a tree, then written.
\<close>

theorem save_overwrite_removal_witness:
  "save_df store_lib locked_fs table_ab ''out.csv'' None ''overwrite'' Map.empty
     [(''out.csv'', [[PInt 9]])]
   = (None, [(''out.csv'', [[PInt 1, PStr ''x''], [PInt 2, PStr ''y'']])])
  \<and> save_df store_lib store_fs table_ab ''out.csv'' None ''overwrite'' Map.empty
     [(''out.csv/part-0'', [[PInt 9]]), (''other.csv'', [])]
   = (None, [(''out.csv'', [[PInt 1, PStr ''x''], [PInt 2, PStr ''y'']]), (''other.csv'', [])])"
proof -
  let ?p = "\<lparr>attr_uri = plain_uri ''out.csv'', attr_glob_pattern = '''',
          attr_path = ''out.csv'', attr_format = ''csv''\<rparr>"
  have p: "FileParser_init ''out.csv'' None = Inr ?p" by code_simp
  have g: "glob_pattern ?p = ''''" by code_simp
  have e1: "fs_exists locked_fs ''out.csv'' [(''out.csv'', [[PInt 9]])]" by code_simp
  have e2: "fs_exists store_fs ''out.csv''
              [(''out.csv/part-0'', [[PInt 9]]), (''other.csv'', [])]" by code_simp
  have r1: "(case fs_remove locked_fs ''out.csv'' [(''out.csv'', [[PInt 9]])] of
              (None, s1) \<Rightarrow>
                call_saver (the (FORMAT_SAVE store_lib (file_format ?p))) table_ab ?p Map.empty s1
            | (Some e, s1) \<Rightarrow>
                (case fs_removetree locked_fs ''out.csv'' s1 of
                   (r, s2) \<Rightarrow>
                     call_saver (the (FORMAT_SAVE store_lib (file_format ?p))) table_ab ?p
                       Map.empty s2))
       = (None, [(''out.csv'', [[PInt 1, PStr ''x''], [PInt 2, PStr ''y'']])])"
    by code_simp
  have r2: "(case fs_remove store_fs ''out.csv''
                  [(''out.csv/part-0'', [[PInt 9]]), (''other.csv'', [])] of
              (None, s1) \<Rightarrow>
                call_saver (the (FORMAT_SAVE store_lib (file_format ?p))) table_ab ?p Map.empty s1
            | (Some e, s1) \<Rightarrow>
                (case fs_removetree store_fs ''out.csv'' s1 of
                   (r, s2) \<Rightarrow>
                     call_saver (the (FORMAT_SAVE store_lib (file_format ?p))) table_ab ?p
                       Map.empty s2))
       = (None, [(''out.csv'', [[PInt 1, PStr ''x''], [PInt 2, PStr ''y'']]),
                 (''other.csv'', [])])"
    by code_simp
  show ?thesis
    using save_overwrite_removal[OF p g e1, of store_lib table_ab Map.empty]
          save_overwrite_removal[OF p g e2, of store_lib table_ab Map.empty] r1 r2
    by simp
qed

section \<open>Properties of the CSV codec\<close>

lemma del_absent: "m k = None \<Longrightarrow> m(k := None) = m"
  by (rule ext) simp

lemma load_csv_unfold:
  "load_csv lib p columns kwargs s =
     (let header = (case kwargs ''header'' of Some v \<Rightarrow> v | None \<Rightarrow> PBool False);
          kw = csv_options kwargs
      in if py_str header \<in> set [''True'', ''0''] then
           (case read_csv lib (uri p)
                   ([''index_col'' \<mapsto> PBool False, ''header'' \<mapsto> PInt 0] ++ kw) s of
              Inl e \<Rightarrow> Inl e
            | Inr pdf \<Rightarrow> select_columns lib pdf columns)
         else if header = PNone \<or> py_str header = ''False'' then
           (case columns of
              PNone \<Rightarrow> Inl (InvalidOperationError ''columns must be set if without header'')
            | PList names \<Rightarrow>
                (case read_csv lib (uri p)
                        ([''index_col'' \<mapsto> PBool False, ''header'' \<mapsto> PNone,
                          ''names'' \<mapsto> columns] ++ kw) s of
                   Inl e \<Rightarrow> Inl e
                 | Inr pdf \<Rightarrow> Inr (pdf, None))
            | _ \<Rightarrow>
                (case triad_Schema lib columns of
                   Inl e \<Rightarrow> Inl e
                 | Inr sch \<Rightarrow>
                     (case read_csv lib (uri p)
                             ([''index_col'' \<mapsto> PBool False, ''header'' \<mapsto> PNone,
                               ''names'' \<mapsto> PList (schema_names sch)] ++ kw) s of
                        Inl e \<Rightarrow> Inl e
                      | Inr pdf \<Rightarrow> Inr (pdf, Some sch))))
         else Inl (NotImplementedError (py_str header @ '' is not supported'')))"
proof -
  have 1: "\<And>m::kwargs. (if m ''infer_schema'' \<noteq> None then m(''infer_schema'' := None) else m)
        = m(''infer_schema'' := None)"
    by (simp add: del_absent)
  have 2: "\<And>m::kwargs. (if m ''header'' \<noteq> None then m(''header'' := None) else m)
        = m(''header'' := None)"
    by (simp add: del_absent)
  show ?thesis
    unfolding load_csv_def csv_options_def Let_def 1 2
    by (simp split: if_splits)
qed

text \<open>
  Claim C5: when the \<^verbatim>\<open>header\<close> option is absent, \<open>None\<close> or \<open>False\<close>, a CSV load
  without columns fails with \<open>InvalidOperationError\<close> (MissingColumns), before anything
  is read; with a list of names it is the read of the file with \<^verbatim>\<open>header=None\<close> and, unless
  the caller's options have a \<^verbatim>\<open>names\<close> of their own, \<^verbatim>\<open>names\<close> set to that list, so the
  reader gives the names to the columns by position, and the result is the frame read,
  with no schema. A \<^verbatim>\<open>header\<close> value that is not \<open>None\<close> and whose text is none of
  \<^verbatim>\<open>True\<close>, \<^verbatim>\<open>0\<close>, \<^verbatim>\<open>False\<close> fails with \<open>NotImplementedError\<close> (UnsupportedOption).
\<close>

theorem load_csv_header:
  "((kwargs ''header'' = None \<or> kwargs ''header'' = Some PNone
       \<or> kwargs ''header'' = Some (PBool False)) \<longrightarrow>
      load_csv lib p PNone kwargs s =
        Inl (InvalidOperationError ''columns must be set if without header'')
      \<and> load_csv lib p (PList names) kwargs s =
          (case read_csv lib (uri p)
                  ([''index_col'' \<mapsto> PBool False, ''header'' \<mapsto> PNone,
                    ''names'' \<mapsto> PList names] ++ csv_options kwargs) s of
             Inl e \<Rightarrow> Inl e
           | Inr pdf \<Rightarrow> Inr (pdf, None))
      \<and> ([''index_col'' \<mapsto> PBool False, ''header'' \<mapsto> PNone,
           ''names'' \<mapsto> PList names] ++ csv_options kwargs) ''header'' = Some PNone
      \<and> (kwargs ''names'' = None \<longrightarrow>
           ([''index_col'' \<mapsto> PBool False, ''header'' \<mapsto> PNone,
             ''names'' \<mapsto> PList names] ++ csv_options kwargs) ''names'' = Some (PList names)))
   \<and> (kwargs ''header'' = Some v \<and> v \<noteq> PNone
        \<and> py_str v \<notin> set [''True'', ''0'', ''False''] \<longrightarrow>
      load_csv lib p columns kwargs s =
        Inl (NotImplementedError (py_str v @ '' is not supported'')))"
proof -
  have nohdr: "csv_options kwargs ''header'' = None" by (simp add: csv_options_def)
  have names: "kwargs ''names'' = None \<Longrightarrow> csv_options kwargs ''names'' = None"
    by (simp add: csv_options_def)
  have a: "kwargs ''header'' = None \<or> kwargs ''header'' = Some PNone
       \<or> kwargs ''header'' = Some (PBool False) \<Longrightarrow>
      load_csv lib p PNone kwargs s =
        Inl (InvalidOperationError ''columns must be set if without header'')"
    by (auto simp: load_csv_unfold)
  have b: "kwargs ''header'' = None \<or> kwargs ''header'' = Some PNone
       \<or> kwargs ''header'' = Some (PBool False) \<Longrightarrow>
      load_csv lib p (PList names) kwargs s =
          (case read_csv lib (uri p)
                  ([''index_col'' \<mapsto> PBool False, ''header'' \<mapsto> PNone,
                    ''names'' \<mapsto> PList names] ++ csv_options kwargs) s of
             Inl e \<Rightarrow> Inl e
           | Inr pdf \<Rightarrow> Inr (pdf, None))"
    by (auto simp: load_csv_unfold)
  have c: "([''index_col'' \<mapsto> PBool False, ''header'' \<mapsto> PNone,
           ''names'' \<mapsto> PList names] ++ csv_options kwargs) ''header'' = Some PNone"
    using nohdr by (simp add: map_add_def)
  have d: "kwargs ''names'' = None \<Longrightarrow>
           ([''index_col'' \<mapsto> PBool False, ''header'' \<mapsto> PNone,
             ''names'' \<mapsto> PList names] ++ csv_options kwargs) ''names'' = Some (PList names)"
    using names by (simp add: map_add_def)
  have e: "kwargs ''header'' = Some v \<Longrightarrow> v \<noteq> PNone \<Longrightarrow>
        py_str v \<notin> set [''True'', ''0'', ''False''] \<Longrightarrow>
      load_csv lib p columns kwargs s =
        Inl (NotImplementedError (py_str v @ '' is not supported''))"
    by (auto simp: load_csv_unfold)
  from a b c d e show ?thesis by blast
qed

theorem load_csv_header_witness:
  "load_csv store_lib csv_file PNone Map.empty [(''t.csv'', [[PInt 1, PStr ''x'']])] =
     Inl (InvalidOperationError ''columns must be set if without header'')
   \<and> load_csv store_lib csv_file PNone [''header'' \<mapsto> PBool False]
        [(''t.csv'', [[PInt 1, PStr ''x'']])] =
     Inl (InvalidOperationError ''columns must be set if without header'')
   \<and> load_csv store_lib csv_file (PList [PStr ''a'', PStr ''b'']) [''header'' \<mapsto> PBool False]
        [(''t.csv'', [[PInt 1, PStr ''x'']])] =
     Inr (\<lparr>df_columns = [''a'', ''b''], df_rows = [[PInt 1, PStr ''x'']]\<rparr>, None)
   \<and> load_csv store_lib csv_file (PList [PStr ''a'', PStr ''b'']) [''header'' \<mapsto> PInt 1]
        [(''t.csv'', [[PInt 1, PStr ''x'']])] =
     Inl (NotImplementedError ''1 is not supported'')"
proof -
  let ?s = "[(''t.csv'', [[PInt 1, PStr ''x'']])]"
  let ?names = "[PStr ''a'', PStr ''b'']"
  have r: "(case read_csv store_lib (uri csv_file)
                  ([''index_col'' \<mapsto> PBool False, ''header'' \<mapsto> PNone,
                    ''names'' \<mapsto> PList ?names] ++ csv_options [''header'' \<mapsto> PBool False]) ?s of
             Inl e \<Rightarrow> Inl e
           | Inr pdf \<Rightarrow> Inr (pdf, None :: schema option)) =
      Inr (\<lparr>df_columns = [''a'', ''b''], df_rows = [[PInt 1, PStr ''x'']]\<rparr>, None)"
    by code_simp
  have n: "py_str (PInt 1) = ''1''" by code_simp
  show ?thesis
    using load_csv_header[of Map.empty store_lib csv_file ?s ?names]
          load_csv_header[of "[''header'' \<mapsto> PBool False]" store_lib csv_file ?s ?names]
          load_csv_header[of "[''header'' \<mapsto> PInt 1]" store_lib csv_file ?s ?names
                          "PInt 1" "PList ?names"]
          r n
    by simp
qed

text \<open>
  Claim C6 says that the CSV saver writes without a header row and without a row index
  whatever options the caller gives. The options of the caller come last in the
  dictionary display, so they replace the two defaults: with \<^verbatim>\<open>header=True\<close> the file
  starts with the header row, and with \<^verbatim>\<open>index=True\<close> every row starts with its index.
\<close>

theorem save_csv_header_overridden:
  "save_csv store_lib table_ab csv_file [''header'' \<mapsto> PBool True] [] =
     (None, [(''t.csv'', [[PStr ''a'', PStr ''b''], [PInt 1, PStr ''x''], [PInt 2, PStr ''y'']])])
   \<and> save_df store_lib store_fs table_ab ''t.csv'' None ''overwrite''
       [''header'' \<mapsto> PBool True, ''index'' \<mapsto> PBool True] [] =
     (None, [(''t.csv'', [[PStr '''', PStr ''a'', PStr ''b''], [PInt 0, PInt 1, PStr ''x''],
                          [PInt 1, PInt 2, PStr ''y'']])])
   \<and> ([''index'' \<mapsto> PBool False, ''header'' \<mapsto> PBool False] ++ [''header'' \<mapsto> PBool True])
        ''header'' \<noteq> Some (PBool False)"
  by code_simp

text \<open>
  Claim C6 as amended: the CSV saver calls the writer with the caller's options over the
  defaults \<^verbatim>\<open>index=False\<close> and \<^verbatim>\<open>header=False\<close>. The writer is told \<^verbatim>\<open>header=False\<close> when the
  caller gives no \<^verbatim>\<open>header\<close>, and the caller's value otherwise; the same holds for
  \<^verbatim>\<open>index\<close>; every other option is passed as given.
\<close>

theorem save_csv_defaults:
  "save_csv lib df p kwargs s =
     to_csv lib (as_pandas df) (uri p)
       ([''index'' \<mapsto> PBool False, ''header'' \<mapsto> PBool False] ++ kwargs) s
   \<and> ([''index'' \<mapsto> PBool False, ''header'' \<mapsto> PBool False] ++ kwargs) ''header'' =
       Some (case kwargs ''header'' of None \<Rightarrow> PBool False | Some v \<Rightarrow> v)
   \<and> ([''index'' \<mapsto> PBool False, ''header'' \<mapsto> PBool False] ++ kwargs) ''index'' =
       Some (case kwargs ''index'' of None \<Rightarrow> PBool False | Some v \<Rightarrow> v)
   \<and> (k \<noteq> ''header'' \<and> k \<noteq> ''index'' \<longrightarrow>
       ([''index'' \<mapsto> PBool False, ''header'' \<mapsto> PBool False] ++ kwargs) k = kwargs k)"
  by (auto simp: save_csv_def map_add_def split: option.splits)

theorem save_csv_defaults_witness:
  "save_csv store_lib table_ab csv_file [''sep'' \<mapsto> PStr ''|''] [] =
     (None, [(''t.csv'', [[PInt 1, PStr ''x''], [PInt 2, PStr ''y'']])])
   \<and> ([''index'' \<mapsto> PBool False, ''header'' \<mapsto> PBool False] ++ [''sep'' \<mapsto> PStr ''|''])
        ''header'' = Some (PBool False)
   \<and> ([''index'' \<mapsto> PBool False, ''header'' \<mapsto> PBool False] ++ [''sep'' \<mapsto> PStr ''|''])
        ''index'' = Some (PBool False)
   \<and> ([''index'' \<mapsto> PBool False, ''header'' \<mapsto> PBool False] ++ [''sep'' \<mapsto> PStr ''|''])
        ''sep'' = Some (PStr ''|'')"
proof -
  have w: "to_csv store_lib (as_pandas table_ab) (uri csv_file)
       ([''index'' \<mapsto> PBool False, ''header'' \<mapsto> PBool False] ++ [''sep'' \<mapsto> PStr ''|'']) [] =
     (None, [(''t.csv'', [[PInt 1, PStr ''x''], [PInt 2, PStr ''y'']])])"
    by code_simp
  show ?thesis
    using save_csv_defaults[of store_lib table_ab csv_file "[''sep'' \<mapsto> PStr ''|'']" "[]"
                               "''sep''"] w
    by simp
qed

section \<open>Properties of the Avro saver\<close>

lemma schema_kept_infer:
  "save_avro_infer schema kw = Inr kw' \<Longrightarrow> kw ''schema'' \<noteq> None \<Longrightarrow> kw' ''schema'' \<noteq> None"
  by (auto simp: save_avro_infer_def split: option.splits if_splits)

lemma schema_kept_append:
  "save_avro_append kw = Inr (kw', a) \<Longrightarrow> kw ''schema'' \<noteq> None \<Longrightarrow> kw' ''schema'' \<noteq> None"
  by (auto simp: save_avro_append_def split: option.splits if_splits sum.splits bool.splits)

lemma schema_bound:
  "save_avro_schema columns kw = Inr (kw', Some sc) \<Longrightarrow> kw' ''schema'' \<noteq> None"
  by (auto simp: save_avro_schema_def Let_def split: option.splits if_splits)

text \<open>
  Claim C8 says that an Avro save without the \<^verbatim>\<open>append\<close> option succeeds and overwrites,
  and that a given \<^verbatim>\<open>append\<close> is passed on. The code tests \<^verbatim>\<open>"append" in kw["append"]\<close>:
  without the option the subscript raises \<open>KeyError\<close>, and with \<^verbatim>\<open>append=True\<close> the test
  raises \<open>TypeError\<close>. More than that, no call of \<^verbatim>\<open>_save_avro\<close> reaches the writer: the
  local \<^verbatim>\<open>schema\<close> is bound only when \<^verbatim>\<open>schema\<close> is among the options, and then the option is
  still in \<^verbatim>\<open>kw\<close> at the call, beside the keyword argument of the same name. Every call
  ends in an exception and leaves the stored files as they were.
\<close>

theorem save_avro_always_raises:
  "(\<exists>e. save_avro lib df p columns kwargs s = (Some e, s))
   \<and> save_avro lib df p columns Map.empty s = (Some (KeyError ''append''), s)
   \<and> save_avro lib df p columns [''append'' \<mapsto> PBool True] s =
       (Some (TypeError ''argument is not iterable''), s)
   \<and> save_avro lib df p PNone
       [''schema'' \<mapsto> PSchema [(''a'', ''long'')], ''infer_schema'' \<mapsto> PBool False,
        ''append'' \<mapsto> PList [PStr ''append''], ''times_as_micros'' \<mapsto> PBool True] s =
       (Some (TypeError ''got multiple values for keyword argument''), s)"
proof -
  have gen: "\<exists>e. save_avro lib df p columns kwargs s = (Some e, s)"
  proof (cases "save_avro_schema columns kwargs")
    case (Inl e)
    then show ?thesis by (simp add: save_avro_def)
  next
    case (Inr r1)
    obtain kw1 schema where r1: "r1 = (kw1, schema)" by (cases r1)
    show ?thesis
    proof (cases "save_avro_infer schema kw1")
      case (Inl e)
      then show ?thesis using Inr r1 by (simp add: save_avro_def)
    next
      case r2: (Inr kw2)
      show ?thesis
      proof (cases "save_avro_append kw2")
        case (Inl e)
        then show ?thesis using Inr r1 r2 by (simp add: save_avro_def)
      next
        case r3: (Inr r)
        obtain kw3 ap where r: "r = (kw3, ap)" by (cases r)
        show ?thesis
        proof (cases schema)
          case None
          then show ?thesis using Inr r1 r2 r3 r by (simp add: save_avro_def Let_def)
        next
          case (Some sc)
          have "kw1 ''schema'' \<noteq> None" using Inr r1 Some schema_bound by blast
          then have "kw2 ''schema'' \<noteq> None" using r2 schema_kept_infer by blast
          then have "kw3 ''schema'' \<noteq> None" using r3 r schema_kept_append by blast
          then show ?thesis using Inr r1 r2 r3 r Some
            by (auto simp: save_avro_def Let_def split: option.splits)
        qed
      qed
    qed
  qed
  have e1: "save_avro lib df p columns Map.empty s = (Some (KeyError ''append''), s)"
    by (simp add: save_avro_def save_avro_schema_def save_avro_infer_def save_avro_append_def)
  have e2: "save_avro lib df p columns [''append'' \<mapsto> PBool True] s =
       (Some (TypeError ''argument is not iterable''), s)"
    by (simp add: save_avro_def save_avro_schema_def save_avro_infer_def save_avro_append_def)
  have e3: "save_avro lib df p PNone
       [''schema'' \<mapsto> PSchema [(''a'', ''long'')], ''infer_schema'' \<mapsto> PBool False,
        ''append'' \<mapsto> PList [PStr ''append''], ''times_as_micros'' \<mapsto> PBool True] s =
       (Some (TypeError ''got multiple values for keyword argument''), s)"
    by (simp add: save_avro_def save_avro_schema_def save_avro_infer_def save_avro_append_def)
  from gen e1 e2 e3 show ?thesis by blast
qed

section \<open>Properties of loading\<close>

lemma load_loop_all:
  "map (load_file lib columns kwargs s) files = map Inr rs \<Longrightarrow>
   load_loop lib columns kwargs s files acc =
     Inr (fst acc @ map fst rs, if rs = [] then snd acc else snd (last rs))"
proof (induction files arbitrary: acc rs)
  case Nil
  then show ?case by simp
next
  case (Cons f files)
  then obtain r rs' where rs: "rs = r # rs'" and r: "load_file lib columns kwargs s f = Inr r"
    and rest: "map (load_file lib columns kwargs s) files = map Inr rs'"
    by (cases rs) auto
  show ?case
    using Cons.IH[OF rest, of "(fst acc @ [fst r], snd r)"] r rs
    by (cases r) auto
qed

lemma pd_concat_nonempty:
  "dfs \<noteq> [] \<Longrightarrow>
   pd_concat dfs =
     Inr \<lparr>df_columns = first_seen (concat (map df_columns dfs)),
          df_rows = concat (map (realign (first_seen (concat (map df_columns dfs)))) dfs)\<rparr>"
  by (simp add: pd_concat_def Let_def)

lemma lookup_cell_same:
  assumes "distinct cols" and "length row = length cols"
  shows "map (lookup_cell cols row) cols = row"
proof (rule nth_equalityI)
  show "length (map (lookup_cell cols row) cols) = length row" using assms by simp
next
  fix i assume "i < length (map (lookup_cell cols row) cols)"
  then have i: "i < length cols" by simp
  then have "map_of (zip cols row) (cols ! i) = Some (row ! i)"
    using assms by (simp add: map_of_zip_nth)
  then show "map (lookup_cell cols row) cols ! i = row ! i"
    using i by (simp add: lookup_cell_def)
qed

lemma realign_same:
  assumes "distinct (df_columns d)" and "list_all (\<lambda>row. length row = length (df_columns d)) (df_rows d)"
  shows "realign (df_columns d) d = df_rows d"
  using assms by (auto simp: realign_def list_all_iff lookup_cell_same intro!: map_idI)

lemma remdups_append_subset: "set xs \<subseteq> set ys \<Longrightarrow> remdups (xs @ ys) = remdups ys"
  by (induction xs) auto

lemma first_seen_append_subset: "set ys \<subseteq> set xs \<Longrightarrow> first_seen (xs @ ys) = first_seen xs"
  by (simp add: first_seen_def remdups_append_subset)

lemma first_seen_distinct: "distinct xs \<Longrightarrow> first_seen xs = xs"
  by (simp add: first_seen_def distinct_remdups_id)

lemma first_seen_same_columns:
  assumes "dfs \<noteq> []" and "list_all (\<lambda>d. df_columns d = cols) dfs" and "distinct cols"
  shows "first_seen (concat (map df_columns dfs)) = cols"
proof -
  obtain d ds where dfs: "dfs = d # ds" using assms(1) by (cases dfs) auto
  have "set (concat (map df_columns ds)) \<subseteq> set cols"
    using assms(2) dfs by (auto simp: list_all_iff)
  then show ?thesis
    using assms dfs by (simp add: first_seen_append_subset first_seen_distinct)
qed

lemma pd_concat_same_columns:
  assumes "dfs \<noteq> []" and "distinct cols" and "list_all (regular_frame cols) dfs"
  shows "pd_concat dfs = Inr \<lparr>df_columns = cols, df_rows = concat (map df_rows dfs)\<rparr>"
proof -
  have c: "first_seen (concat (map df_columns dfs)) = cols"
    using assms by (intro first_seen_same_columns) (auto simp: regular_frame_def list_all_iff)
  have eq: "map (realign cols) dfs = map df_rows dfs"
  proof (rule map_cong[OF refl])
    fix d assume "d \<in> set dfs"
    then have "regular_frame cols d" using assms(3) by (simp add: list_all_iff)
    then show "realign cols d = df_rows d"
      using realign_same[of d] assms(2) by (simp add: regular_frame_def)
  qed
  show ?thesis unfolding pd_concat_nonempty[OF assms(1)] c eq by simp
qed

text \<open>
  Claim C7: let the paths parse, let the enumeration end without an exception with the
  files \<open>files\<close>, at least one, and let every file load, the results being \<open>rs\<close> in
  the order of the enumeration. Then the load returns the frame that \<^verbatim>\<open>pd.concat\<close> builds
  from the frames of \<open>rs\<close> in that order, with the schema the loader returned for the
  last file. When the frames are regular over the same distinct columns, the rows of the
  result are the rows of the first file, then those of the second, and so on.
\<close>

theorem load_concatenates_in_order:
  assumes "parse_uri_arg uri_a format_hint = Inr fp"
    and "get_single_files depth fs s fp = (files, None)"
    and "map (load_file lib columns kwargs s) files = map Inr rs"
    and "rs \<noteq> []"
  shows "load_df depth lib fs uri_a format_hint columns kwargs s =
           Inr (PandasDataFrame
                  \<lparr>df_columns = first_seen (concat (map (\<lambda>r. df_columns (fst r)) rs)),
                   df_rows = concat (map (\<lambda>r. realign
                                 (first_seen (concat (map (\<lambda>r. df_columns (fst r)) rs))) (fst r)) rs)\<rparr>
                  (snd (last rs)))
       \<and> (distinct cols \<and> list_all (\<lambda>r. regular_frame cols (fst r)) rs \<longrightarrow>
           load_df depth lib fs uri_a format_hint columns kwargs s =
             Inr (PandasDataFrame
                    \<lparr>df_columns = cols, df_rows = concat (map (\<lambda>r. df_rows (fst r)) rs)\<rparr>
                    (snd (last rs))))"
proof -
  have loop: "load_loop lib columns kwargs s files ([], None) = Inr (map fst rs, snd (last rs))"
    using load_loop_all[OF assms(3), of "([], None)"] assms(4) by simp
  have ne: "map fst rs \<noteq> []" using assms(4) by simp
  have 1: "load_df depth lib fs uri_a format_hint columns kwargs s =
      (case pd_concat (map fst rs) of Inl e \<Rightarrow> Inl e
        | Inr pdf \<Rightarrow> Inr (PandasDataFrame pdf (snd (last rs))))"
    using assms(1,2) loop by (simp add: load_df_def)
  have a: "load_df depth lib fs uri_a format_hint columns kwargs s =
           Inr (PandasDataFrame
                  \<lparr>df_columns = first_seen (concat (map (\<lambda>r. df_columns (fst r)) rs)),
                   df_rows = concat (map (\<lambda>r. realign
                                 (first_seen (concat (map (\<lambda>r. df_columns (fst r)) rs))) (fst r)) rs)\<rparr>
                  (snd (last rs)))"
    unfolding 1 pd_concat_nonempty[OF ne] by (simp add: comp_def)
  have b: "distinct cols \<Longrightarrow> list_all (\<lambda>r. regular_frame cols (fst r)) rs \<Longrightarrow>
           load_df depth lib fs uri_a format_hint columns kwargs s =
             Inr (PandasDataFrame
                    \<lparr>df_columns = cols, df_rows = concat (map (\<lambda>r. df_rows (fst r)) rs)\<rparr>
                    (snd (last rs)))"
  proof -
    assume d: "distinct cols" and r: "list_all (\<lambda>r. regular_frame cols (fst r)) rs"
    have "list_all (regular_frame cols) (map fst rs)" using r by (simp add: list_all_iff)
    from pd_concat_same_columns[OF ne d this] show ?thesis
      unfolding 1 by (simp add: comp_def)
  qed
  from a b show ?thesis by blast
qed

theorem load_concatenates_in_order_witness:
  "load_df 2 store_lib store_fs (Single ''d/*.csv'') None (PList [PStr ''a'', PStr ''b''])
      Map.empty two_csv =
     Inr (PandasDataFrame
            \<lparr>df_columns = [''a'', ''b''],
             df_rows = [[PInt 1, PStr ''p''], [PInt 2, PStr ''q''], [PInt 3, PStr ''r'']]\<rparr>
            None)"
proof -
  let ?cols = "PList [PStr ''a'', PStr ''b'']"
  let ?rs = "[(\<lparr>df_columns = [''a'', ''b''], df_rows = [[PInt 1, PStr ''p'']]\<rparr>, None :: schema option),
              (\<lparr>df_columns = [''a'', ''b''],
                df_rows = [[PInt 2, PStr ''q''], [PInt 3, PStr ''r'']]\<rparr>, None)]"
  have p: "parse_uri_arg (Single ''d/*.csv'') None = Inr [glob_in_d ''*.csv'' ''csv'']"
    by code_simp
  have g: "get_single_files 2 store_fs two_csv [glob_in_d ''*.csv'' ''csv''] =
             ([file_in_d ''x.csv'', file_in_d ''y.csv''], None)"
    by code_simp
  have l: "map (load_file store_lib ?cols Map.empty two_csv)
             [file_in_d ''x.csv'', file_in_d ''y.csv''] = map Inr ?rs"
    by code_simp
  have d: "distinct [''a'', ''b'']" by simp
  have r: "list_all (\<lambda>r. regular_frame [''a'', ''b''] (fst r)) ?rs"
    by (simp add: regular_frame_def)
  have ne: "?rs \<noteq> []" by simp
  note t = load_concatenates_in_order[OF p g l ne, THEN conjunct2, rule_format,
                                      of "[''a'', ''b'']"]
  show ?thesis
    using t[OF conjI[OF d r]] by simp
qed
text \<open>
  Claim C9: a load of the empty list of paths, or one whose enumeration ends without an
  exception and without a file, such as a glob that matches nothing, fails with the
  \<open>ValueError\<close> that \<^verbatim>\<open>pd.concat\<close> raises on an empty list; it returns no empty table.
\<close>

theorem load_nothing_raises:
  "load_df (Suc n) lib fs (Several []) format_hint columns kwargs s =
     Inl (ValueError ''No objects to concatenate'')
   \<and> (parse_uri_arg uri_a format_hint = Inr fp \<and> get_single_files depth fs s fp = ([], None) \<longrightarrow>
        load_df depth lib fs uri_a format_hint columns kwargs s =
          Inl (ValueError ''No objects to concatenate''))
   \<and> (FileParser_init u format_hint = Inr f \<and> glob_pattern f \<noteq> ''''
        \<and> fs_glob fs (uri f) (glob_pattern f) s = Inr [] \<longrightarrow>
        load_df (Suc (Suc d)) lib fs (Single u) format_hint columns kwargs s =
          Inl (ValueError ''No objects to concatenate''))"
proof -
  have a: "load_df (Suc n) lib fs (Several []) format_hint columns kwargs s =
     Inl (ValueError ''No objects to concatenate'')"
    by (simp add: load_df_def parse_uri_arg_def pd_concat_def)
  have b: "parse_uri_arg uri_a format_hint = Inr fp \<Longrightarrow> get_single_files depth fs s fp = ([], None) \<Longrightarrow>
        load_df depth lib fs uri_a format_hint columns kwargs s =
          Inl (ValueError ''No objects to concatenate'')"
    by (simp add: load_df_def pd_concat_def)
  have c: "FileParser_init u format_hint = Inr f \<Longrightarrow> glob_pattern f \<noteq> '''' \<Longrightarrow>
        fs_glob fs (uri f) (glob_pattern f) s = Inr [] \<Longrightarrow>
        load_df (Suc (Suc d)) lib fs (Single u) format_hint columns kwargs s =
          Inl (ValueError ''No objects to concatenate'')"
    by (simp add: load_df_def parse_uri_arg_def pd_concat_def)
  from a b c show ?thesis by blast
qed

text \<open>
  On the directory \<^verbatim>\<open>d\<close>, which holds no JSON file: the empty list, the directory itself
  read as JSON, and the glob \<^verbatim>\<open>d/*.json\<close>.
\<close>

theorem load_nothing_raises_witness:
  "load_df 2 store_lib store_fs (Several []) None PNone Map.empty two_csv =
     Inl (ValueError ''No objects to concatenate'')
   \<and> load_df 2 store_lib store_fs (Single ''d'') (Some ''json'') PNone Map.empty two_csv =
     Inl (ValueError ''No objects to concatenate'')
   \<and> load_df 2 store_lib store_fs (Single ''d/*.json'') None PNone Map.empty two_csv =
     Inl (ValueError ''No objects to concatenate'')"
proof -
  let ?dir = "\<lparr>attr_uri = plain_uri ''d'', attr_glob_pattern = '''', attr_path = ''d'',
               attr_format = ''json''\<rparr>"
  have q: "parse_uri_arg (Single ''d'') (Some ''json'') = Inr [?dir]" by code_simp
  have en: "get_single_files 2 store_fs two_csv [?dir] = ([], None)" by code_simp
  have p: "FileParser_init ''d/*.json'' None = Inr (glob_in_d ''*.json'' ''json'')" by code_simp
  have g: "glob_pattern (glob_in_d ''*.json'' ''json'') \<noteq> ''''" by code_simp
  have n: "fs_glob store_fs (uri (glob_in_d ''*.json'' ''json''))
             (glob_pattern (glob_in_d ''*.json'' ''json'')) two_csv = Inr []" by code_simp
  note t = load_nothing_raises[where n = 1 and lib = store_lib and fs = store_fs
            and columns = PNone and kwargs = Map.empty and s = two_csv]
  have 1: "load_df 2 store_lib store_fs (Several []) None PNone Map.empty two_csv =
     Inl (ValueError ''No objects to concatenate'')"
    using t[where format_hint = None] by (simp add: numeral_2_eq_2)
  have 2: "load_df 2 store_lib store_fs (Single ''d'') (Some ''json'') PNone Map.empty two_csv =
     Inl (ValueError ''No objects to concatenate'')"
    using t[where format_hint = "Some ''json''" and uri_a = "Single ''d''" and fp = "[?dir]"
              and depth = 2] q en by simp
  have 3: "load_df 2 store_lib store_fs (Single ''d/*.json'') None PNone Map.empty two_csv =
     Inl (ValueError ''No objects to concatenate'')"
    using t[where format_hint = None and u = "''d/*.json''"
              and f = "glob_in_d ''*.json'' ''json''" and d = 0] p g n
    by (simp add: numeral_2_eq_2)
  from 1 2 3 show ?thesis by simp
qed

lemma urlsplit_error: "urlsplit u = Inl e \<Longrightarrow> e = ValueError ''Invalid IPv6 URL''"
  by (auto simp: urlsplit_def Let_def split: prod.splits if_splits)

lemma urlparse_error: "urlparse u = Inl e \<Longrightarrow> e = ValueError ''Invalid IPv6 URL''"
  by (auto simp: urlparse_def Let_def split: sum.splits prod.splits if_splits dest: urlsplit_error)

lemma parse_location_error: "parse_location u = Inl e \<Longrightarrow> e = ValueError ''Invalid IPv6 URL''"
  by (auto simp: parse_location_def Let_def split: prod.splits if_splits sum.splits
           dest: urlparse_error)

lemma resolve_format_error:
  "resolve_format p None = Inl e \<Longrightarrow> \<exists>sfx. e = NotImplementedError (sfx @ '' is not supported'')"
  by (auto simp: resolve_format_def split: option.splits)

lemma FileParser_init_errors:
  "FileParser_init u None = Inl e \<Longrightarrow>
   e = ValueError ''Invalid IPv6 URL''
   \<or> (\<exists>sfx. e = NotImplementedError (sfx @ '' is not supported''))"
  by (auto simp: FileParser_init_def split: sum.splits prod.splits
           dest: parse_location_error resolve_format_error)

lemma parse_all_fails:
  "u \<in> set us \<Longrightarrow> FileParser_init u hint = Inl e0 \<Longrightarrow>
   \<exists>u' e. u' \<in> set us \<and> FileParser_init u' hint = Inl e \<and> parse_all us hint = Inl e"
proof (induction us)
  case Nil
  then show ?case by simp
next
  case (Cons a us)
  show ?case
  proof (cases "FileParser_init a hint")
    case (Inl e)
    then show ?thesis by auto
  next
    case (Inr f)
    then have "u \<in> set us" using Cons.prems by auto
    from Cons.IH[OF this Cons.prems(2)] obtain u' e where
      "u' \<in> set us" "FileParser_init u' hint = Inl e" "parse_all us hint = Inl e" by blast
    then show ?thesis using Inr by auto
  qed
qed

text \<open>
  Claim C10: in the expansion of a glob the format of the parser that carries the glob,
  which is where a hint of the caller ends up, is not used: with any other format the
  enumeration is the same. Every match is parsed again with no hint, so its format comes
  from its own suffix: when all matches parse, the enumeration goes on with these
  parsers; when one does not, the enumeration yields nothing and raises the exception of
  the first match that fails, the \<open>NotImplementedError\<close> (UnsupportedFormat) for its
  suffix unless its URL is malformed.
\<close>

theorem glob_expansion_drops_hint:
  assumes "glob_pattern f \<noteq> ''''"
  shows "get_single_files depth fs s (f\<lparr>attr_format := fmt\<rparr> # rest) =
           get_single_files depth fs s (f # rest)
       \<and> (fs_glob fs (uri f) (glob_pattern f) s = Inr xs \<longrightarrow>
            x \<in> set xs \<longrightarrow>
            FileParser_init (os_path_join (uri f) (os_path_basename x)) None = Inl e0 \<longrightarrow>
            (\<exists>x' e. x' \<in> set xs
               \<and> FileParser_init (os_path_join (uri f) (os_path_basename x')) None = Inl e
               \<and> (e = ValueError ''Invalid IPv6 URL''
                   \<or> (\<exists>sfx. e = NotImplementedError (sfx @ '' is not supported'')))
               \<and> get_single_files (Suc d) fs s (f # rest) = ([], Some e)))
       \<and> (fs_glob fs (uri f) (glob_pattern f) s = Inr xs \<longrightarrow>
            parse_all (map (\<lambda>x. os_path_join (uri f) (os_path_basename x)) xs) None
              = Inr files \<longrightarrow>
            get_single_files (Suc d) fs s [f] = get_single_files d fs s files)"
proof -
  have same: "uri (f\<lparr>attr_format := fmt\<rparr>) = uri f"
     "glob_pattern (f\<lparr>attr_format := fmt\<rparr>) = glob_pattern f"
    by (simp_all add: uri_def glob_pattern_def)
  have a: "get_single_files depth fs s (f\<lparr>attr_format := fmt\<rparr> # rest) =
           get_single_files depth fs s (f # rest)"
  proof (cases depth)
    case 0
    then show ?thesis by simp
  next
    case (Suc n)
    then show ?thesis using assms by (simp add: same cong: sum.case_cong)
  qed
  have b: "fs_glob fs (uri f) (glob_pattern f) s = Inr xs \<Longrightarrow> x \<in> set xs \<Longrightarrow>
            FileParser_init (os_path_join (uri f) (os_path_basename x)) None = Inl e0 \<Longrightarrow>
            (\<exists>x' e. x' \<in> set xs
               \<and> FileParser_init (os_path_join (uri f) (os_path_basename x')) None = Inl e
               \<and> (e = ValueError ''Invalid IPv6 URL''
                   \<or> (\<exists>sfx. e = NotImplementedError (sfx @ '' is not supported'')))
               \<and> get_single_files (Suc d) fs s (f # rest) = ([], Some e))"
  proof -
    assume gl: "fs_glob fs (uri f) (glob_pattern f) s = Inr xs" and x: "x \<in> set xs"
      and fail: "FileParser_init (os_path_join (uri f) (os_path_basename x)) None = Inl e0"
    let ?j = "\<lambda>x. os_path_join (uri f) (os_path_basename x)"
    have "?j x \<in> set (map ?j xs)" using x by simp
    from parse_all_fails[OF this fail] obtain u' e where
      u': "u' \<in> set (map ?j xs)" and fe: "FileParser_init u' None = Inl e"
      and pa: "parse_all (map ?j xs) None = Inl e" by blast
    from u' obtain x' where x': "x' \<in> set xs" "u' = ?j x'" by auto
    have "get_single_files (Suc d) fs s (f # rest) = ([], Some e)"
      using assms gl pa by simp
    then show ?thesis using x' fe FileParser_init_errors[OF fe] by blast
  qed
  have c: "fs_glob fs (uri f) (glob_pattern f) s = Inr xs \<Longrightarrow>
            parse_all (map (\<lambda>x. os_path_join (uri f) (os_path_basename x)) xs) None
              = Inr files \<Longrightarrow>
            get_single_files (Suc d) fs s [f] = get_single_files d fs s files"
    using assms by (auto split: prod.splits option.splits)
  from a b c show ?thesis by blast
qed

text \<open>
  On the directory \<^verbatim>\<open>d\<close>: the glob \<^verbatim>\<open>d/*\<close> with the hint csv fails on the entry \<^verbatim>\<open>z.xyz\<close>, as
  it does with any other format in the parser; the glob \<^verbatim>\<open>d/*.csv\<close> yields the two CSV
  files with the format csv although the parser that carries the glob says json.
\<close>

theorem glob_expansion_drops_hint_witness:
  "get_single_files 2 store_fs two_csv [glob_in_d ''*'' ''csv''] =
     ([], Some (NotImplementedError ''.xyz is not supported''))
   \<and> get_single_files 2 store_fs two_csv [glob_in_d ''*'' ''json''] =
       get_single_files 2 store_fs two_csv [glob_in_d ''*'' ''csv'']
   \<and> get_single_files 2 store_fs two_csv [glob_in_d ''*.csv'' ''json''] =
       ([file_in_d ''x.csv'', file_in_d ''y.csv''], None)
   \<and> FileParser_init ''d/*'' (Some ''csv'') = Inr (glob_in_d ''*'' ''csv'')
   \<and> load_df 2 store_lib store_fs (Single ''d/*'') (Some ''csv'') PNone
        [''header'' \<mapsto> PBool True] two_csv =
       Inl (NotImplementedError ''.xyz is not supported'')"
proof -
  let ?f = "glob_in_d ''*'' ''csv''"
  let ?j = "\<lambda>x. os_path_join (uri ?f) (os_path_basename x)"
  have g: "glob_pattern ?f \<noteq> ''''" by code_simp
  have u: "?f\<lparr>attr_format := ''json''\<rparr> = glob_in_d ''*'' ''json''"
    by (simp add: glob_in_d_def)
  have xs: "fs_glob store_fs (uri ?f) (glob_pattern ?f) two_csv =
              Inr [''d/x.csv'', ''d/y.csv'', ''d/z.xyz'']" by code_simp
  have x: "''d/z.xyz'' \<in> set [''d/x.csv'', ''d/y.csv'', ''d/z.xyz'']" by simp
  have fail: "FileParser_init (?j ''d/z.xyz'') None =
                Inl (NotImplementedError ''.xyz is not supported'')" by code_simp
  have ok: "FileParser_init (?j ''d/x.csv'') None = Inr (file_in_d ''x.csv'')"
    "FileParser_init (?j ''d/y.csv'') None = Inr (file_in_d ''y.csv'')" by code_simp+
  note t = glob_expansion_drops_hint[OF g, of 2 store_fs two_csv "''json''" "[]"
      "[''d/x.csv'', ''d/y.csv'', ''d/z.xyz'']" "''d/z.xyz''" _ 1]
  have same: "get_single_files 2 store_fs two_csv [glob_in_d ''*'' ''json''] =
       get_single_files 2 store_fs two_csv [?f]"
    using t[THEN conjunct1] by (simp only: u)
  from t xs x fail obtain x' e where
    x': "x' \<in> set [''d/x.csv'', ''d/y.csv'', ''d/z.xyz'']"
    and e: "FileParser_init (?j x') None = Inl e"
    and r: "get_single_files (Suc 1) store_fs two_csv [?f] = ([], Some e)"
    by blast
  from x' e ok fail have ee: "e = NotImplementedError ''.xyz is not supported''" by auto
  have 1: "get_single_files 2 store_fs two_csv [?f] =
     ([], Some (NotImplementedError ''.xyz is not supported''))"
    using r by (simp only: Suc_1 ee)
  let ?h = "glob_in_d ''*.csv'' ''json''"
  have g2: "glob_pattern ?h \<noteq> ''''" by code_simp
  have xs2: "fs_glob store_fs (uri ?h) (glob_pattern ?h) two_csv = Inr [''d/x.csv'', ''d/y.csv'']"
    by code_simp
  have pa: "parse_all (map (\<lambda>x. os_path_join (uri ?h) (os_path_basename x))
                         [''d/x.csv'', ''d/y.csv'']) None
              = Inr [file_in_d ''x.csv'', file_in_d ''y.csv'']" by code_simp
  have rec: "get_single_files 1 store_fs two_csv [file_in_d ''x.csv'', file_in_d ''y.csv''] =
               ([file_in_d ''x.csv'', file_in_d ''y.csv''], None)" by code_simp
  have "get_single_files (Suc 1) store_fs two_csv [?h] =
          get_single_files 1 store_fs two_csv [file_in_d ''x.csv'', file_in_d ''y.csv'']"
    using glob_expansion_drops_hint[OF g2, where fs = store_fs and s = two_csv and d = 1
            and xs = "[''d/x.csv'', ''d/y.csv'']"
            and files = "[file_in_d ''x.csv'', file_in_d ''y.csv'']"] xs2 pa
    by blast
  then have 2: "get_single_files 2 store_fs two_csv [?h] =
       ([file_in_d ''x.csv'', file_in_d ''y.csv''], None)"
    by (simp only: Suc_1 rec)
  have 3: "FileParser_init ''d/*'' (Some ''csv'') = Inr ?f" by code_simp
  have 4: "load_df 2 store_lib store_fs (Single ''d/*'') (Some ''csv'') PNone
        [''header'' \<mapsto> PBool True] two_csv =
       Inl (NotImplementedError ''.xyz is not supported'')"
    using 3 1 by (simp add: load_df_def parse_uri_arg_def)
  from 1 same 2 3 4 show ?thesis by simp
qed

end
